theory Spec2Isabelle
  imports Main "HOL-Library.Sublist"
begin

section \<open>Python values and string operations\<close>

text \<open>
  A Python call either returns a value or raises. The source never looks at the class of
  an exception (every handler is \<^verbatim>\<open>except Exception\<close>), so one constructor stands for
  every raise.
\<close>

datatype 'a outcome = Raises | Returns 'a

text \<open>
  Strings are lists of characters, and a character stands for the code point of its
  number: the model holds text whose code points are below 256. On that text the case
  mapping and the white space are those of Python's \<^verbatim>\<open>str\<close> methods: beside the ASCII
  letters, the letters 0xC0 to 0xDE (without the sign 0xD7) have the lower-case forms 0xE0
  to 0xFE (without the sign 0xF7).
\<close>

definition ascii_uppercase :: string where
  "ascii_uppercase = ''ABCDEFGHIJKLMNOPQRSTUVWXYZ''"

definition ascii_lowercase :: string where
  "ascii_lowercase = ''abcdefghijklmnopqrstuvwxyz''"

definition latin1_uppercase :: string where
  "latin1_uppercase =
     [CHR 0xC0, CHR 0xC1, CHR 0xC2, CHR 0xC3, CHR 0xC4, CHR 0xC5, CHR 0xC6, CHR 0xC7,
      CHR 0xC8, CHR 0xC9, CHR 0xCA, CHR 0xCB, CHR 0xCC, CHR 0xCD, CHR 0xCE, CHR 0xCF,
      CHR 0xD0, CHR 0xD1, CHR 0xD2, CHR 0xD3, CHR 0xD4, CHR 0xD5, CHR 0xD6,
      CHR 0xD8, CHR 0xD9, CHR 0xDA, CHR 0xDB, CHR 0xDC, CHR 0xDD, CHR 0xDE]"

definition latin1_lowercase :: string where
  "latin1_lowercase =
     [CHR 0xE0, CHR 0xE1, CHR 0xE2, CHR 0xE3, CHR 0xE4, CHR 0xE5, CHR 0xE6, CHR 0xE7,
      CHR 0xE8, CHR 0xE9, CHR 0xEA, CHR 0xEB, CHR 0xEC, CHR 0xED, CHR 0xEE, CHR 0xEF,
      CHR 0xF0, CHR 0xF1, CHR 0xF2, CHR 0xF3, CHR 0xF4, CHR 0xF5, CHR 0xF6,
      CHR 0xF8, CHR 0xF9, CHR 0xFA, CHR 0xFB, CHR 0xFC, CHR 0xFD, CHR 0xFE]"

definition lower_char :: "char \<Rightarrow> char" where
  "lower_char c =
     (case map_of (zip (ascii_uppercase @ latin1_uppercase)
                       (ascii_lowercase @ latin1_lowercase)) c of
        Some d \<Rightarrow> d
      | None \<Rightarrow> c)"

definition upper_char :: "char \<Rightarrow> char" where
  "upper_char c =
     (case map_of (zip (ascii_lowercase @ latin1_lowercase)
                       (ascii_uppercase @ latin1_uppercase)) c of
        Some d \<Rightarrow> d
      | None \<Rightarrow> c)"

text \<open>\<^verbatim>\<open>s.lower()\<close>\<close>

definition str_lower :: "string \<Rightarrow> string" where
  "str_lower s = map lower_char s"

text \<open>
  \<^verbatim>\<open>s.capitalize()\<close>: the first character in title case, the rest in lower case. The
  title case of the sharp s (0xDF) is the two letters \<^verbatim>\<open>Ss\<close>. The title-case forms of
  the micro sign (0xB5) and of the y with diaeresis (0xFF) have code points above 255: a
  string that starts with one of the two is outside the model, and the character is left
  as it is.
\<close>

definition str_capitalize :: "string \<Rightarrow> string" where
  "str_capitalize s =
     (case s of
        [] \<Rightarrow> []
      | c # cs \<Rightarrow> (if c = CHR 0xDF then ''Ss'' else [upper_char c]) @ str_lower cs)"

text \<open>\<^verbatim>\<open>k in s\<close> on strings: \<open>k\<close> occurs in \<open>s\<close> as a contiguous block.\<close>

definition str_contains :: "string \<Rightarrow> string \<Rightarrow> bool" where
  "str_contains k s = sublist k s"

text \<open>
  The characters \<^verbatim>\<open>str.strip()\<close> removes: tab, line feed, vertical tab, form feed,
  carriage return, the four separators 0x1C to 0x1F, the space, the next-line control
  0x85 and the no-break space 0xA0.
\<close>

definition whitespace :: string where
  "whitespace = [CHR 0x09, CHR 0x0A, CHR 0x0B, CHR 0x0C, CHR 0x0D,
                 CHR 0x1C, CHR 0x1D, CHR 0x1E, CHR 0x1F, CHR 0x20, CHR 0x85, CHR 0xA0]"

definition str_lstrip :: "string \<Rightarrow> string \<Rightarrow> string" where
  "str_lstrip chars s = dropWhile (\<lambda>c. c \<in> set chars) s"

definition str_strip :: "string \<Rightarrow> string" where
  "str_strip s = rev (str_lstrip whitespace (rev (str_lstrip whitespace s)))"

text \<open>\<^verbatim>\<open>sep.join(xs)\<close>\<close>

fun str_join :: "string \<Rightarrow> string list \<Rightarrow> string" where
  "str_join sep [] = []"
| "str_join sep [x] = x"
| "str_join sep (x # y # ys) = x @ sep @ str_join sep (y # ys)"

text \<open>
  \<^verbatim>\<open>s.replace(old, new)\<close>: the occurrences of \<open>old\<close> are replaced from the left and do
  not overlap. The counter of \<open>replace_from\<close> is the number of characters of a matched
  occurrence that are still to be skipped. With an empty \<open>old\<close>, Python puts \<open>new\<close>
  before every character and at the end.
\<close>

fun replace_from :: "string \<Rightarrow> string \<Rightarrow> nat \<Rightarrow> string \<Rightarrow> string" where
  "replace_from old new skip [] = []"
| "replace_from old new (Suc skip) (c # cs) = replace_from old new skip cs"
| "replace_from old new 0 (c # cs) =
     (if prefix old (c # cs) then new @ replace_from old new (length old - 1) cs
      else c # replace_from old new 0 cs)"

definition str_replace :: "string \<Rightarrow> string \<Rightarrow> string \<Rightarrow> string" where
  "str_replace old new s =
     (if old = [] then new @ concat (map (\<lambda>c. c # new) s) else replace_from old new 0 s)"

section \<open>Block detection and the fetcher (main.py, utils/parser.py)\<close>

text \<open>
  A \<^verbatim>\<open>requests.Response\<close> as the source reads it: the status code, the decoded body
  (reading \<^verbatim>\<open>response.text\<close> may raise), and the attribute \<^verbatim>\<open>_was_blocked\<close> that
  \<^verbatim>\<open>fetch_url_data\<close> attaches (\<open>None\<close> while the attribute is not set).
\<close>

record response =
  status_code :: int
  resp_text :: "string outcome"
  was_blocked :: "bool option"

definition BLOCK_KEYWORDS :: "string list" where
  "BLOCK_KEYWORDS = [''captcha'', ''blocked'', ''access denied'', ''unusual traffic'',
                     ''verify you are human'', ''bot detected'', ''rate limit'']"

definition CTA_KEYWORDS :: "string list" where
  "CTA_KEYWORDS = [''get'', ''start'', ''try'', ''sign'', ''buy'', ''free'', ''demo'',
                   ''download'', ''join'', ''subscribe'', ''add'']"

text \<open>
  \<^verbatim>\<open>check_blocking\<close>: the status test comes first and reads no body; a raise while the
  body is read is caught and gives \<open>False\<close>.
\<close>

definition check_blocking :: "response \<Rightarrow> bool" where
  "check_blocking r =
     (if status_code r \<in> {403, 429, 503} then True
      else (case resp_text r of
              Raises \<Rightarrow> False
            | Returns t \<Rightarrow> list_ex (\<lambda>k. str_contains k (str_lower t)) BLOCK_KEYWORDS))"

text \<open>
  What the program does to the outside is kept in a trace: the requests it sends, the
  seconds it sleeps between retries, the politeness delay of the pipeline (its length is
  a random float and is not recorded) and the reads of a robots.txt.
\<close>

datatype event = Request string | Sleep int | Politeness_Delay | Robots_Read string

text \<open>
  The program state: the outside world (network, servers), the module-level dictionary
  \<^verbatim>\<open>_ROBOTS_CACHE\<close>, and the trace.
\<close>

record ('w, 'p) state =
  world :: 'w
  robots_cache :: "string \<rightharpoonup> 'p"
  trace :: "event list"

text \<open>
  \<^verbatim>\<open>time.sleep(t)\<close> raises \<^verbatim>\<open>ValueError\<close> on a negative length before it asks the
  system. \<open>sleep\<close> is the sleep of the system behind it: given a length that is not
  negative and the world, it returns when the time has passed or raises (in CPython
  \<^verbatim>\<open>OverflowError\<close> for a length whose nanoseconds do not fit in 64 bits, such as
  \<open>10 ^ 10\<close> seconds, and \<^verbatim>\<open>OSError\<close> where the system refuses the length), and leaves a
  new world. The trace keeps the sleeps that returned.
\<close>

definition time_sleep ::
  "(int \<Rightarrow> 'w \<Rightarrow> unit outcome \<times> 'w) \<Rightarrow> int \<Rightarrow> ('w, 'p) state \<Rightarrow>
   unit outcome \<times> ('w, 'p) state" where
  "time_sleep sleep t s =
     (if t < 0 then (Raises, s)
      else (case sleep t (world s) of (res, w') \<Rightarrow>
              (case res of
                 Raises \<Rightarrow> (Raises, s\<lparr>world := w'\<rparr>)
               | Returns x \<Rightarrow> (Returns (), s\<lparr>world := w', trace := trace s @ [Sleep t]\<rparr>))))"

definition retry_codes :: "int set" where
  "retry_codes = {429, 500, 502, 503, 504}"

text \<open>
  One pass through the body of the loop either leaves the function (\<open>Done\<close>: a return, or
  a raise that no handler of the function catches) or goes on to the next attempt
  (\<open>Continue\<close>).
\<close>

datatype ('a, 's) step = Done "'a outcome" 's | Continue 's

text \<open>
  The \<^verbatim>\<open>except Exception\<close> clause of \<^verbatim>\<open>fetch_url_data\<close> (lines 112 to 127). A raise of
  its own \<^verbatim>\<open>time.sleep\<close> leaves the function.
\<close>

definition fetch_except ::
  "(int \<Rightarrow> 'w \<Rightarrow> unit outcome \<times> 'w) \<Rightarrow> int \<Rightarrow> int \<Rightarrow> nat \<Rightarrow> ('w, 'p) state \<Rightarrow>
   (response option, ('w, 'p) state) step" where
  "fetch_except sleep tries wait i s =
     (if int i < tries then
        (case time_sleep sleep (wait * 2 ^ i) s of
           (Raises, s') \<Rightarrow> Done Raises s'
         | (Returns x, s') \<Rightarrow> Continue s')
      else Done (Returns None) s)"

text \<open>
  The body of the loop for attempt \<open>i\<close> (lines 71 to 127). \<open>get\<close> is \<^verbatim>\<open>requests.get\<close>
  with the fixed headers, timeout and certificate bundle: given the URL and the world it
  returns a response or raises, and leaves a new world. A raise of the \<^verbatim>\<open>time.sleep\<close>
  inside the \<^verbatim>\<open>try\<close> goes to the \<^verbatim>\<open>except\<close> clause like any other.
\<close>

definition fetch_attempt ::
  "(string \<Rightarrow> 'w \<Rightarrow> response outcome \<times> 'w) \<Rightarrow> (int \<Rightarrow> 'w \<Rightarrow> unit outcome \<times> 'w) \<Rightarrow>
   string \<Rightarrow> int \<Rightarrow> int \<Rightarrow> nat \<Rightarrow> ('w, 'p) state \<Rightarrow>
   (response option, ('w, 'p) state) step" where
  "fetch_attempt get sleep u tries wait i s =
     (case get u (world s) of (res, w') \<Rightarrow>
        (let s1 = s\<lparr>world := w', trace := trace s @ [Request u]\<rparr> in
         case res of
           Raises \<Rightarrow> fetch_except sleep tries wait i s1
         | Returns r0 \<Rightarrow>
             (let response = r0\<lparr>was_blocked := Some (check_blocking r0)\<rparr> in
              if was_blocked response = Some True then Done (Returns (Some response)) s1
              else if status_code response = 403 then Done (Returns (Some response)) s1
              else if status_code response \<in> retry_codes then
                (if int i < tries then
                   (case time_sleep sleep (wait * 2 ^ i) s1 of
                      (Raises, s2) \<Rightarrow> fetch_except sleep tries wait i s2
                    | (Returns x, s2) \<Rightarrow> Continue s2)
                 else Done (Returns None) s1)
              else if status_code response \<ge> 400 then Done (Returns None) s1
              else Done (Returns (Some response)) s1)))"

text \<open>\<^verbatim>\<open>for i in range(tries + 1)\<close>, and the \<^verbatim>\<open>return None\<close> after the loop.\<close>

fun fetch_loop ::
  "(string \<Rightarrow> 'w \<Rightarrow> response outcome \<times> 'w) \<Rightarrow> (int \<Rightarrow> 'w \<Rightarrow> unit outcome \<times> 'w) \<Rightarrow>
   string \<Rightarrow> int \<Rightarrow> int \<Rightarrow> nat list \<Rightarrow> ('w, 'p) state \<Rightarrow>
   response option outcome \<times> ('w, 'p) state" where
  "fetch_loop get sleep u tries wait [] s = (Returns None, s)"
| "fetch_loop get sleep u tries wait (i # rest) s =
     (case fetch_attempt get sleep u tries wait i s of
        Done res s' \<Rightarrow> (res, s')
      | Continue s' \<Rightarrow> fetch_loop get sleep u tries wait rest s')"

definition fetch_url_data ::
  "(string \<Rightarrow> 'w \<Rightarrow> response outcome \<times> 'w) \<Rightarrow> (int \<Rightarrow> 'w \<Rightarrow> unit outcome \<times> 'w) \<Rightarrow>
   string \<Rightarrow> int \<Rightarrow> int \<Rightarrow> ('w, 'p) state \<Rightarrow>
   response option outcome \<times> ('w, 'p) state" where
  "fetch_url_data get sleep u tries wait s =
     fetch_loop get sleep u tries wait [0..<nat (tries + 1)] s"

text \<open>
  How \<^verbatim>\<open>start_scraping\<close> reads what \<^verbatim>\<open>fetch_url_data\<close> returned (lines 190 to 203):
  \<^verbatim>\<open>None\<close> is a failure, a response flagged \<^verbatim>\<open>_was_blocked\<close> is blocked content, a status
  of 400 or more is a failure, anything else goes on to extraction.
\<close>

datatype fetch_outcome = Success | Blocked | Failed

definition getattr_was_blocked :: "response \<Rightarrow> bool" where
  "getattr_was_blocked resp = (case was_blocked resp of None \<Rightarrow> False | Some b \<Rightarrow> b)"

definition outcome_of :: "response option \<Rightarrow> fetch_outcome" where
  "outcome_of resp =
     (case resp of
        None \<Rightarrow> Failed
      | Some r \<Rightarrow>
          if getattr_was_blocked r then Blocked
          else if status_code r \<ge> 400 then Failed
          else Success)"

section \<open>The parsed page (BeautifulSoup) and JSON values\<close>

text \<open>
  The tree that \<^verbatim>\<open>BeautifulSoup(html, "html.parser")\<close> builds. A node is a string of the
  page or an element with its name, its attributes, its \<^verbatim>\<open>class\<close> attribute and its
  children. The attributes the source reads (\<^verbatim>\<open>type\<close>, \<^verbatim>\<open>name\<close>, \<^verbatim>\<open>content\<close>,
  \<^verbatim>\<open>itemprop\<close>, \<^verbatim>\<open>aria-label\<close>, \<^verbatim>\<open>id\<close>, \<^verbatim>\<open>value\<close>, \<^verbatim>\<open>placeholder\<close>,
  \<^verbatim>\<open>href\<close>) are strings in that tree; \<^verbatim>\<open>class\<close> is the one the source reads that the
  tree builder splits into a list of tokens, and the source also allows for a plain
  string there.

  A string of the tree has a class. The tree builder gives the class \<^verbatim>\<open>Script\<close>,
  \<^verbatim>\<open>Stylesheet\<close>, \<^verbatim>\<open>TemplateString\<close>, \<^verbatim>\<open>RubyTextString\<close> or \<^verbatim>\<open>RubyParenthesisString\<close> to
  the text inside a \<^verbatim>\<open>script\<close>, \<^verbatim>\<open>style\<close>, \<^verbatim>\<open>template\<close>, \<^verbatim>\<open>rt\<close> or \<^verbatim>\<open>rp\<close> element, its
  own classes to comments, CDATA sections, declarations, doctypes and processing
  instructions, and \<^verbatim>\<open>NavigableString\<close> to the other text.
\<close>

datatype attr_value = Single string | Multi "string list"

datatype string_class =
  NavigableString | CData | Comment | Declaration | Doctype | ProcessingInstruction
| Script | Stylesheet | TemplateString | RubyTextString | RubyParenthesisString

datatype node =
  Text string_class string
| Elem string "(string \<times> string) list" "attr_value option" "node list"

fun is_tag :: "node \<Rightarrow> bool" where
  "is_tag (Text k t) = False"
| "is_tag (Elem n a c ch) = True"

fun node_name :: "node \<Rightarrow> string" where
  "node_name (Text k t) = []"
| "node_name (Elem n a c ch) = n"

text \<open>\<^verbatim>\<open>e.get(k)\<close> for an attribute other than \<^verbatim>\<open>class\<close>, and \<^verbatim>\<open>e.get("class")\<close>.\<close>

fun get_attr :: "node \<Rightarrow> string \<Rightarrow> string option" where
  "get_attr (Text k t) key = None"
| "get_attr (Elem n a c ch) key = map_of a key"

fun get_class :: "node \<Rightarrow> attr_value option" where
  "get_class (Text k t) = None"
| "get_class (Elem n a c ch) = c"

text \<open>The nodes below a node, in document order (\<^verbatim>\<open>Tag.descendants\<close>).\<close>

fun descendants :: "node \<Rightarrow> node list" where
  "descendants (Text k t) = []"
| "descendants (Elem n a c ch) = concat (map (\<lambda>x. x # descendants x) ch)"

text \<open>
  \<^verbatim>\<open>soup.find_all(...)\<close> gives the elements below the root that pass the test, in
  document order; \<^verbatim>\<open>soup.find(...)\<close> gives the first of them or \<^verbatim>\<open>None\<close>.
\<close>

definition soup_find_all :: "(node \<Rightarrow> bool) \<Rightarrow> node \<Rightarrow> node list" where
  "soup_find_all P soup = filter (\<lambda>e. is_tag e \<and> P e) (descendants soup)"

definition soup_find :: "(node \<Rightarrow> bool) \<Rightarrow> node \<Rightarrow> node option" where
  "soup_find P soup = (case soup_find_all P soup of [] \<Rightarrow> None | e # es \<Rightarrow> Some e)"

text \<open>The test \<^verbatim>\<open>attrs={k: v}\<close> with a string \<open>v\<close>, and with a function \<open>f\<close>.\<close>

definition attr_is :: "string \<Rightarrow> string \<Rightarrow> node \<Rightarrow> bool" where
  "attr_is k v e = (get_attr e k = Some v)"

definition attr_sat :: "string \<Rightarrow> (string \<Rightarrow> bool) \<Rightarrow> node \<Rightarrow> bool" where
  "attr_sat k f e = (case get_attr e k of None \<Rightarrow> False | Some x \<Rightarrow> f x)"

text \<open>
  The classes of strings that \<^verbatim>\<open>get_text\<close> of an element takes
  (\<^verbatim>\<open>interesting_string_types\<close>): for a \<^verbatim>\<open>script\<close>, \<^verbatim>\<open>style\<close>, \<^verbatim>\<open>template\<close>, \<^verbatim>\<open>rt\<close> or
  \<^verbatim>\<open>rp\<close> element the class of its own text, for any other element \<^verbatim>\<open>NavigableString\<close>
  and \<^verbatim>\<open>CData\<close>.
\<close>

definition interesting_string_types :: "node \<Rightarrow> string_class list" where
  "interesting_string_types e =
     (case map_of [(''rt'', RubyTextString), (''rp'', RubyParenthesisString),
                   (''style'', Stylesheet), (''script'', Script),
                   (''template'', TemplateString)] (node_name e) of
        Some k \<Rightarrow> [k]
      | None \<Rightarrow> [NavigableString, CData])"

text \<open>The strings below an element that have one of the given classes, in document order.\<close>

definition all_strings :: "string_class list \<Rightarrow> node \<Rightarrow> string list" where
  "all_strings types e =
     concat (map (\<lambda>x. case x of
                         Text k t \<Rightarrow> if k \<in> set types then [t] else []
                       | Elem n a c ch \<Rightarrow> [])
               (descendants e))"

text \<open>
  \<^verbatim>\<open>e.get_text(sep, strip=True)\<close>: every string of an interesting class is stripped, the
  empty ones are left out, the rest are joined with \<open>sep\<close>.
\<close>

definition get_text :: "string \<Rightarrow> node \<Rightarrow> string" where
  "get_text sep e =
     str_join sep
       (filter (\<lambda>t. t \<noteq> []) (map str_strip (all_strings (interesting_string_types e) e)))"

text \<open>
  \<^verbatim>\<open>e.string\<close>: the string of an element whose only child is a string (of any class), or
  whose only child is an element that has one.
\<close>

fun tag_string :: "node \<Rightarrow> string option" where
  "tag_string (Text k t) = Some t"
| "tag_string (Elem n a c [child]) = tag_string child"
| "tag_string (Elem n a c ch) = None"

text \<open>
  What \<^verbatim>\<open>json.loads\<close> returns. A dictionary is the list of its items, with distinct
  keys. A float carries the text that \<^verbatim>\<open>str\<close> gives for it, since that text is all the
  source takes from it. The call itself returns a value, raises \<^verbatim>\<open>JSONDecodeError\<close>, or
  raises another exception (\<^verbatim>\<open>RecursionError\<close> on a text nested too deep).
\<close>

datatype json =
  JNull
| JBool bool
| JInt int
| JFloat string
| JStr string
| JList "json list"
| JDict "(string \<times> json) list"

datatype loaded = Loaded json | JSONDecodeError | OtherError

fun is_dict :: "json \<Rightarrow> bool" where
  "is_dict (JDict kv) = True"
| "is_dict j = False"

text \<open>\<^verbatim>\<open>str(n)\<close> for an integer.\<close>

fun nat_digits :: "nat \<Rightarrow> string" where
  "nat_digits n =
     (if n < 10 then [''0123456789'' ! n]
      else nat_digits (n div 10) @ [''0123456789'' ! (n mod 10)])"

declare nat_digits.simps [simp del]

definition str_of_int :: "int \<Rightarrow> string" where
  "str_of_int i = (if i < 0 then CHR ''-'' # nat_digits (nat (- i)) else nat_digits (nat i))"

section \<open>The extractor (utils/parser.py)\<close>

text \<open>
  The functions of the extractor run inside \<^verbatim>\<open>try\<close> blocks whose handlers log and
  return \<^verbatim>\<open>None\<close> (or what was collected so far). On the tree above the operations
  they use are total, so those handlers are reached only where a modelled call can raise:
  \<^verbatim>\<open>json.loads\<close> in \<^verbatim>\<open>get_json_ld\<close>, \<^verbatim>\<open>urljoin\<close> in \<^verbatim>\<open>get_btns\<close>, and the parser in
  \<^verbatim>\<open>extract_structured_data\<close>. Lists that the source builds by \<^verbatim>\<open>append\<close> in a loop are
  built here by the recursion over the loop's sequence.
\<close>

definition get_text_clean :: "node option \<Rightarrow> string" where
  "get_text_clean element = (case element of None \<Rightarrow> [] | Some e \<Rightarrow> get_text '' '' e)"

text \<open>\<^verbatim>\<open>x or None\<close> for a string \<open>x\<close>.\<close>

definition or_none :: "string \<Rightarrow> string option" where
  "or_none t = (if t = [] then None else Some t)"

text \<open>What one parsed block adds to the items of \<^verbatim>\<open>get_json_ld\<close> (lines 68 to 77).\<close>

definition json_items :: "json \<Rightarrow> json list" where
  "json_items parsed =
     (case parsed of
        JList xs \<Rightarrow> filter is_dict xs
      | JDict kv \<Rightarrow>
          (case map_of kv ''@graph'' of
             Some (JList g) \<Rightarrow> filter is_dict g
           | _ \<Rightarrow> []) @ [parsed]
      | _ \<Rightarrow> [])"

text \<open>\<^verbatim>\<open>s.string or s.get_text(strip=True)\<close>\<close>

definition script_raw :: "node \<Rightarrow> string" where
  "script_raw s =
     (case tag_string s of
        None \<Rightarrow> get_text [] s
      | Some t \<Rightarrow> if t \<noteq> [] then t else get_text [] s)"

text \<open>
  The loop of \<^verbatim>\<open>get_json_ld\<close> over the script elements. \<open>loads\<close> is \<^verbatim>\<open>json.loads\<close>. On
  \<^verbatim>\<open>JSONDecodeError\<close> the loop goes on with the next element; any other exception ends
  it in the handler of the function, which returns the items collected so far.
\<close>

fun json_ld_items :: "(string \<Rightarrow> loaded) \<Rightarrow> node list \<Rightarrow> json list" where
  "json_ld_items loads [] = []"
| "json_ld_items loads (s # scripts) =
     (let raw = script_raw s in
      if raw = [] then json_ld_items loads scripts
      else (case loads raw of
              JSONDecodeError \<Rightarrow> json_ld_items loads scripts
            | OtherError \<Rightarrow> []
            | Loaded parsed \<Rightarrow> json_items parsed @ json_ld_items loads scripts))"

definition get_json_ld :: "(string \<Rightarrow> loaded) \<Rightarrow> node \<Rightarrow> json list" where
  "get_json_ld loads soup =
     json_ld_items loads
       (soup_find_all (\<lambda>e. node_name e = ''script'' \<and> attr_is ''type'' ''application/ld+json'' e) soup)"

text \<open>
  The inner loop of \<^verbatim>\<open>read_json_data\<close> follows the keys of the path; \<open>None\<close> stands for
  \<^verbatim>\<open>valid = False\<close>.
\<close>

fun walk_path :: "json \<Rightarrow> string list \<Rightarrow> json option" where
  "walk_path cur [] = Some cur"
| "walk_path cur (k # ks) =
     (case cur of
        JDict kv \<Rightarrow> (case map_of kv k of None \<Rightarrow> None | Some v \<Rightarrow> walk_path v ks)
      | _ \<Rightarrow> None)"

text \<open>
  \<^verbatim>\<open>str(curr)\<close> where \<^verbatim>\<open>curr\<close> is not \<^verbatim>\<open>None\<close> and is a \<^verbatim>\<open>str\<close>, \<^verbatim>\<open>int\<close> or \<^verbatim>\<open>float\<close>
  (a Python \<^verbatim>\<open>bool\<close> is an \<^verbatim>\<open>int\<close>).
\<close>

fun scalar_str :: "json \<Rightarrow> string option" where
  "scalar_str (JStr s) = Some s"
| "scalar_str (JInt i) = Some (str_of_int i)"
| "scalar_str (JFloat f) = Some f"
| "scalar_str (JBool b) = Some (if b then ''True'' else ''False'')"
| "scalar_str j = None"

fun read_json_data :: "json list \<Rightarrow> string list \<Rightarrow> string option" where
  "read_json_data [] keys = None"
| "read_json_data (obj # objs) keys =
     (case walk_path obj keys of
        None \<Rightarrow> read_json_data objs keys
      | Some cur \<Rightarrow>
          (case scalar_str cur of
             None \<Rightarrow> read_json_data objs keys
           | Some s \<Rightarrow> Some s))"

definition find_title :: "node \<Rightarrow> string option" where
  "find_title soup = or_none (get_text_clean (soup_find (\<lambda>e. node_name e = ''title'') soup))"

definition find_h1 :: "node \<Rightarrow> string option" where
  "find_h1 soup =
     (case soup_find_all (\<lambda>e. node_name e = ''h1'') soup of
        [] \<Rightarrow> None
      | tag # tags \<Rightarrow> or_none (get_text_clean (Some tag)))"

definition find_meta :: "node \<Rightarrow> string option" where
  "find_meta soup =
     (case soup_find (\<lambda>e. node_name e = ''meta'' \<and> attr_is ''name'' ''description'' e) soup of
        None \<Rightarrow> None
      | Some m \<Rightarrow>
          (case get_attr m ''content'' of
             None \<Rightarrow> None
           | Some c \<Rightarrow> if c = [] then None else or_none (str_strip c)))"

text \<open>
  \<^verbatim>\<open>get_text_clean(match) or str(match.get("content", "")).strip()\<close>, as \<^verbatim>\<open>get_metric\<close>
  and \<^verbatim>\<open>get_price\<close> read an element found by its \<^verbatim>\<open>itemprop\<close>.
\<close>

definition text_or_content :: "node \<Rightarrow> string" where
  "text_or_content m =
     (let t = get_text_clean (Some m) in
      if t \<noteq> [] then t
      else str_strip (case get_attr m ''content'' of None \<Rightarrow> [] | Some c \<Rightarrow> c))"

text \<open>
  The class tokens of an element as \<^verbatim>\<open>get_metric\<close> takes them (lines 162 to 163); a
  value that is not a list goes through \<^verbatim>\<open>str\<close>.
\<close>

definition cls_list :: "node \<Rightarrow> string list" where
  "cls_list e =
     (case get_class e of
        Some (Multi l) \<Rightarrow> l
      | Some (Single s) \<Rightarrow> [s]
      | None \<Rightarrow> [''None''])"

definition combined :: "node \<Rightarrow> string" where
  "combined e = str_lower (str_join '' '' (cls_list e))"

text \<open>The loop over the elements that have a class attribute (lines 161 to 172).\<close>

fun class_scan :: "string list \<Rightarrow> string \<Rightarrow> node list \<Rightarrow> string option" where
  "class_scan keys mtype [] = None"
| "class_scan keys mtype (e # es) =
     (if list_ex (\<lambda>k. str_contains k (combined e)) keys then
        (let v = get_text_clean (Some e) in
         if v = [] \<and> mtype = ''rating'' then
           Some (str_capitalize (str_strip (str_replace ''star-rating'' [] (combined e))))
         else if v \<noteq> [] then Some v
         else class_scan keys mtype es)
      else class_scan keys mtype es)"

definition get_metric :: "node \<Rightarrow> string \<Rightarrow> string option" where
  "get_metric soup mtype =
     (let keys = (if mtype = ''rating'' then [''rating'', ''stars'', ''score'']
                  else [''review'', ''count'']);
          item_prop = (if mtype = ''rating'' then ''ratingValue'' else ''reviewCount'');
          v1 = (case soup_find (attr_is ''itemprop'' item_prop) soup of
                  None \<Rightarrow> []
                | Some m \<Rightarrow> text_or_content m)
      in if v1 \<noteq> [] then Some v1
         else
           (let v2 = (case soup_find
                             (attr_sat ''aria-label'' (\<lambda>x. str_contains mtype (str_lower x))) soup of
                        None \<Rightarrow> []
                      | Some m \<Rightarrow> get_text_clean (Some m))
            in if v2 \<noteq> [] then Some v2
               else class_scan keys mtype (soup_find_all (\<lambda>e. get_class e \<noteq> None) soup)))"

text \<open>The class and id of an element as \<^verbatim>\<open>get_price\<close> joins them (lines 189 to 191).\<close>

definition class_and_id :: "node \<Rightarrow> string" where
  "class_and_id e =
     (let classes = (case get_class e of
                       Some (Multi l) \<Rightarrow> str_join '' '' l
                     | Some (Single s) \<Rightarrow> s
                     | None \<Rightarrow> []);
          eid = (case get_attr e ''id'' of None \<Rightarrow> [] | Some i \<Rightarrow> i)
      in str_lower (classes @ '' '' @ eid))"

fun price_scan :: "node list \<Rightarrow> string option" where
  "price_scan [] = None"
| "price_scan (e # es) =
     (if list_ex (\<lambda>k. str_contains k (class_and_id e)) [''price'', ''pricing'', ''plan'', ''cost'']
      then (let v = get_text_clean (Some e) in
            if v \<noteq> [] then Some v else price_scan es)
      else price_scan es)"

definition get_price :: "node \<Rightarrow> string option" where
  "get_price soup =
     (let v = (case soup_find (attr_is ''itemprop'' ''price'') soup of
                 None \<Rightarrow> []
               | Some m \<Rightarrow> text_or_content m)
      in if v \<noteq> [] then Some v
         else price_scan
                (concat (map (\<lambda>t. soup_find_all (\<lambda>e. node_name e = t) soup)
                   [''div'', ''span'', ''p'', ''li'', ''section'', ''a'', ''button''])))"

section \<open>URLs (urllib.parse)\<close>

text \<open>
  \<^verbatim>\<open>urlparse\<close>, \<^verbatim>\<open>urlunparse\<close> and \<^verbatim>\<open>urljoin\<close> of the standard library, which the source
  calls in \<^verbatim>\<open>get_btns\<close> and \<^verbatim>\<open>_get_base_domain\<close>, following
  \<^verbatim>\<open>Lib/urllib/parse.py\<close> of CPython 3.11.10 on strings. \<^verbatim>\<open>urlsplit\<close> raises \<^verbatim>\<open>ValueError\<close>
  for a host with one bracket and not the other, and for a host between brackets that is
  not an IPv6 or IPvFuture address. Its last check, \<^verbatim>\<open>_checknetloc\<close>, raises when the
  compatibility normal form of a non-ASCII host has one of the characters
  \<^verbatim>\<open>/ ? # @ :\<close>; no character below 256 has such a normal form, so the check never raises
  on the text of the model.
\<close>

record url_parts =
  url_scheme :: string
  url_netloc :: string
  url_path :: string
  url_params :: string
  url_query :: string
  url_fragment :: string

definition uses_relative :: "string list" where
  "uses_relative = ['''', ''ftp'', ''http'', ''gopher'', ''nntp'', ''imap'', ''wais'', ''file'',
     ''https'', ''shttp'', ''mms'', ''prospero'', ''rtsp'', ''rtsps'', ''rtspu'', ''sftp'',
     ''svn'', ''svn+ssh'', ''ws'', ''wss'']"

definition uses_netloc :: "string list" where
  "uses_netloc = ['''', ''ftp'', ''http'', ''gopher'', ''nntp'', ''telnet'', ''imap'', ''wais'',
     ''file'', ''mms'', ''https'', ''shttp'', ''snews'', ''prospero'', ''rtsp'', ''rtsps'',
     ''rtspu'', ''rsync'', ''svn'', ''svn+ssh'', ''sftp'', ''nfs'', ''git'', ''git+ssh'',
     ''ws'', ''wss'']"

definition uses_params :: "string list" where
  "uses_params = ['''', ''ftp'', ''hdl'', ''prospero'', ''http'', ''imap'', ''https'', ''shttp'',
     ''rtsp'', ''rtsps'', ''rtspu'', ''sip'', ''sips'', ''mms'', ''sftp'', ''tel'']"

definition scheme_chars :: string where
  "scheme_chars = ascii_lowercase @ ascii_uppercase @ ''0123456789+-.''"

definition c0_control_or_space :: string where
  "c0_control_or_space =
     [CHR 0x00, CHR 0x01, CHR 0x02, CHR 0x03, CHR 0x04, CHR 0x05, CHR 0x06, CHR 0x07,
      CHR 0x08, CHR 0x09, CHR 0x0A, CHR 0x0B, CHR 0x0C, CHR 0x0D, CHR 0x0E, CHR 0x0F,
      CHR 0x10, CHR 0x11, CHR 0x12, CHR 0x13, CHR 0x14, CHR 0x15, CHR 0x16, CHR 0x17,
      CHR 0x18, CHR 0x19, CHR 0x1A, CHR 0x1B, CHR 0x1C, CHR 0x1D, CHR 0x1E, CHR 0x1F,
      CHR 0x20]"

definition unsafe_url_bytes :: string where
  "unsafe_url_bytes = [CHR 0x09, CHR 0x0D, CHR 0x0A]"

definition str_strip_chars :: "string \<Rightarrow> string \<Rightarrow> string" where
  "str_strip_chars chars s = rev (str_lstrip chars (rev (str_lstrip chars s)))"

text \<open>\<^verbatim>\<open>s.split(c)\<close> for a separator of one character.\<close>

fun str_split :: "char \<Rightarrow> string \<Rightarrow> string list" where
  "str_split d [] = [[]]"
| "str_split d (c # cs) =
     (if c = d then [] # str_split d cs
      else (case str_split d cs of
              [] \<Rightarrow> [[c]]
            | p # ps \<Rightarrow> (c # p) # ps))"

text \<open>
  \<^verbatim>\<open>s.split(c, 1)\<close> as a pair, for a string that has the character \<open>c\<close>; a string
  without it is paired with the empty string.
\<close>

definition split_once :: "char \<Rightarrow> string \<Rightarrow> string \<times> string" where
  "split_once c s = (takeWhile (\<lambda>x. x \<noteq> c) s, drop 1 (dropWhile (\<lambda>x. x \<noteq> c) s))"

text \<open>
  The host between brackets is checked as \<^verbatim>\<open>_check_bracketed_host\<close> does: a host that
  starts with \<^verbatim>\<open>v\<close> must match \<^verbatim>\<open>v[a-fA-F0-9]+\..+\<close>; any other must be an IPv6 address
  for \<^verbatim>\<open>ipaddress.ip_address\<close>, which tries IPv4 first, and an IPv4 address in brackets is
  refused. The next definitions say which strings the constructors \<^verbatim>\<open>IPv4Address\<close> and
  \<^verbatim>\<open>IPv6Address\<close> of \<^verbatim>\<open>Lib/ipaddress.py\<close> accept.
\<close>

definition dec_value :: "string \<Rightarrow> nat" where
  "dec_value s =
     foldl (\<lambda>n c. 10 * n + (case map_of (zip ''0123456789'' [0..<10]) c of
                                  Some d \<Rightarrow> d
                                | None \<Rightarrow> 0)) 0 s"

text \<open>\<^verbatim>\<open>_parse_octet\<close> does not raise.\<close>

definition valid_octet :: "string \<Rightarrow> bool" where
  "valid_octet octet_str =
     (octet_str \<noteq> []
      \<and> list_all (\<lambda>c. c \<in> set ''0123456789'') octet_str
      \<and> length octet_str \<le> 3
      \<and> (octet_str = ''0'' \<or> take 1 octet_str \<noteq> ''0'')
      \<and> dec_value octet_str \<le> 255)"

definition is_ipv4 :: "string \<Rightarrow> bool" where
  "is_ipv4 addr_str =
     (CHR ''/'' \<notin> set addr_str
      \<and> addr_str \<noteq> []
      \<and> length (str_split (CHR ''.'') addr_str) = 4
      \<and> list_all valid_octet (str_split (CHR ''.'') addr_str))"

text \<open>\<^verbatim>\<open>_parse_hextet\<close> does not raise (the conversion of an empty hextet does).\<close>

definition valid_hextet :: "string \<Rightarrow> bool" where
  "valid_hextet hextet_str =
     (list_all (\<lambda>c. c \<in> set ''0123456789ABCDEFabcdef'') hextet_str
      \<and> length hextet_str \<le> 4
      \<and> hextet_str \<noteq> [])"

text \<open>
  The second half of \<^verbatim>\<open>IPv6Address._ip_int_from_string\<close>, on the list of parts: at most
  nine parts; at most one empty part strictly inside, which marks the \<^verbatim>\<open>::\<close>; an empty
  first or last part only next to it; with it fewer than eight other parts, without it
  exactly eight; and every part that is read is a hextet.
\<close>

definition ipv6_parts_ok :: "string list \<Rightarrow> bool" where
  "ipv6_parts_ok parts =
     (length parts \<le> 9
      \<and> (case filter (\<lambda>i. parts ! i = []) [1..<length parts - 1] of
            [] \<Rightarrow>
              length parts = 8 \<and> hd parts \<noteq> [] \<and> last parts \<noteq> []
              \<and> list_all valid_hextet parts
          | [skip_index] \<Rightarrow>
              (let parts_hi = (if hd parts = [] then skip_index - 1 else skip_index);
                   parts_lo = (if last parts = [] then length parts - skip_index - 2
                               else length parts - skip_index - 1)
               in (if hd parts = [] then parts_hi = 0 else True)
                  \<and> (if last parts = [] then parts_lo = 0 else True)
                  \<and> parts_hi + parts_lo < 8
                  \<and> list_all valid_hextet (take parts_hi parts)
                  \<and> list_all valid_hextet (drop (length parts - parts_lo) parts))
          | i # j # others \<Rightarrow> False))"

text \<open>
  \<^verbatim>\<open>IPv6Address\<close> on a string: no slash; a scope after a percent sign is not empty and
  has no second percent sign; the address has at least three parts; a last part with a dot
  is an IPv4 address, and stands for two hextets (written \<^verbatim>\<open>0\<close> here, since only their
  being hextets matters).
\<close>

definition is_ipv6 :: "string \<Rightarrow> bool" where
  "is_ipv6 addr_str =
     (let addr = fst (split_once (CHR 0x25) addr_str);
          scope_id = snd (split_once (CHR 0x25) addr_str);
          parts = str_split (CHR '':'') addr
      in CHR ''/'' \<notin> set addr_str
         \<and> (if CHR 0x25 \<in> set addr_str then scope_id \<noteq> [] \<and> CHR 0x25 \<notin> set scope_id
             else True)
         \<and> addr \<noteq> []
         \<and> 3 \<le> length parts
         \<and> (if CHR ''.'' \<in> set (last parts)
             then is_ipv4 (last parts) \<and> ipv6_parts_ok (butlast parts @ [''0'', ''0''])
             else ipv6_parts_ok parts))"

definition check_bracketed_host :: "string \<Rightarrow> bool" where
  "check_bracketed_host hostname =
     (if take 1 hostname = ''v''
      then (let digits = takeWhile (\<lambda>c. c \<in> set ''0123456789ABCDEFabcdef'') (drop 1 hostname);
                rest = dropWhile (\<lambda>c. c \<in> set ''0123456789ABCDEFabcdef'') (drop 1 hostname)
            in digits \<noteq> [] \<and> take 1 rest = ''.'' \<and> drop 1 rest \<noteq> []
               \<and> CHR 0x0A \<notin> set (drop 1 rest))
      else \<not> is_ipv4 hostname \<and> is_ipv6 hostname)"

definition urlsplit :: "string \<Rightarrow> string \<Rightarrow> url_parts outcome" where
  "urlsplit url0 scheme0 =
     (let url1 = filter (\<lambda>c. c \<notin> set unsafe_url_bytes) (str_lstrip c0_control_or_space url0);
          scheme1 = filter (\<lambda>c. c \<notin> set unsafe_url_bytes)
                      (str_strip_chars c0_control_or_space scheme0);
          head = takeWhile (\<lambda>c. c \<noteq> CHR '':'') url1;
          has_scheme = (CHR '':'' \<in> set url1 \<and> head \<noteq> []
                        \<and> hd head \<in> set (ascii_lowercase @ ascii_uppercase)
                        \<and> list_all (\<lambda>c. c \<in> set scheme_chars) head);
          scheme2 = (if has_scheme then str_lower head else scheme1);
          url2 = (if has_scheme then drop (length head + 1) url1 else url1);
          has_netloc = (take 2 url2 = ''//'');
          netloc = (if has_netloc
                    then takeWhile (\<lambda>c. c \<notin> set ''/?#'') (drop 2 url2) else []);
          url3 = (if has_netloc
                  then dropWhile (\<lambda>c. c \<notin> set ''/?#'') (drop 2 url2) else url2)
      in if (CHR ''['' \<in> set netloc) \<noteq> (CHR '']'' \<in> set netloc) then Raises
         else if CHR ''['' \<in> set netloc \<and> CHR '']'' \<in> set netloc
                 \<and> \<not> check_bracketed_host
                       (fst (split_once (CHR '']'') (snd (split_once (CHR ''['') netloc))))
         then Raises
         else (case split_once (CHR ''#'') url3 of (url4, fragment) \<Rightarrow>
               case split_once (CHR ''?'') url4 of (url5, query) \<Rightarrow>
                 Returns \<lparr>url_scheme = scheme2, url_netloc = netloc, url_path = url5,
                          url_params = [], url_query = query, url_fragment = fragment\<rparr>))"

text \<open>
  \<^verbatim>\<open>_splitparams\<close>: the parameters start at the first semicolon of the last segment of
  the path.
\<close>

definition splitparams :: "string \<Rightarrow> string \<times> string" where
  "splitparams p =
     (if CHR ''/'' \<in> set p then
        (let seg = rev (takeWhile (\<lambda>c. c \<noteq> CHR ''/'') (rev p));
             dir = take (length p - length seg) p
         in if CHR '';'' \<in> set seg
            then (dir @ fst (split_once (CHR '';'') seg), snd (split_once (CHR '';'') seg))
            else (p, []))
      else split_once (CHR '';'') p)"

definition urlparse :: "string \<Rightarrow> string \<Rightarrow> url_parts outcome" where
  "urlparse url0 scheme0 =
     (case urlsplit url0 scheme0 of
        Raises \<Rightarrow> Raises
      | Returns r \<Rightarrow>
          if url_scheme r \<in> set uses_params \<and> CHR '';'' \<in> set (url_path r)
          then Returns (r\<lparr>url_path := fst (splitparams (url_path r)),
                           url_params := snd (splitparams (url_path r))\<rparr>)
          else Returns r)"

definition urlunsplit :: "url_parts \<Rightarrow> string" where
  "urlunsplit r =
     (let url1 = (if url_netloc r \<noteq> []
                     \<or> (url_scheme r \<noteq> [] \<and> url_scheme r \<in> set uses_netloc)
                     \<or> take 2 (url_path r) = ''//''
                  then ''//'' @ url_netloc r
                       @ (if url_path r \<noteq> [] \<and> take 1 (url_path r) \<noteq> ''/''
                          then ''/'' @ url_path r else url_path r)
                  else url_path r);
          url2 = (if url_scheme r \<noteq> [] then url_scheme r @ '':'' @ url1 else url1);
          url3 = (if url_query r \<noteq> [] then url2 @ ''?'' @ url_query r else url2)
      in if url_fragment r \<noteq> [] then url3 @ ''#'' @ url_fragment r else url3)"

definition urlunparse :: "url_parts \<Rightarrow> string" where
  "urlunparse r =
     urlunsplit (if url_params r \<noteq> []
                 then r\<lparr>url_path := url_path r @ '';'' @ url_params r\<rparr> else r)"

text \<open>\<^verbatim>\<open>segments[1:-1] = filter(None, segments[1:-1])\<close>\<close>

definition drop_empty_middle :: "string list \<Rightarrow> string list" where
  "drop_empty_middle segs =
     (if length segs \<le> 2 then segs
      else hd segs # filter (\<lambda>x. x \<noteq> []) (butlast (tl segs)) @ [last segs])"

text \<open>
  The last part of \<^verbatim>\<open>urljoin\<close>: the path of the reference is resolved against the path
  of the base, and dot segments are removed.
\<close>

definition resolve_path :: "string \<Rightarrow> string \<Rightarrow> string" where
  "resolve_path bpath p =
     (let base_parts0 = str_split (CHR ''/'') bpath;
          base_parts = (if last base_parts0 \<noteq> [] then butlast base_parts0 else base_parts0);
          segments = (if take 1 p = ''/'' then str_split (CHR ''/'') p
                      else drop_empty_middle (base_parts @ str_split (CHR ''/'') p));
          resolved = foldl (\<lambda>acc seg. if seg = ''..'' then butlast acc
                                       else if seg = ''.'' then acc
                                       else acc @ [seg]) [] segments;
          resolved1 = (if last segments = ''.'' \<or> last segments = ''..''
                       then resolved @ [[]] else resolved);
          joined = str_join ''/'' resolved1
      in if joined = [] then ''/'' else joined)"

definition urljoin :: "string \<Rightarrow> string \<Rightarrow> string outcome" where
  "urljoin base url0 =
     (if base = [] then Returns url0
      else if url0 = [] then Returns base
      else (case urlparse base [] of
              Raises \<Rightarrow> Raises
            | Returns b \<Rightarrow>
                (case urlparse url0 (url_scheme b) of
                   Raises \<Rightarrow> Raises
                 | Returns r \<Rightarrow>
                     if url_scheme r \<noteq> url_scheme b \<or> url_scheme r \<notin> set uses_relative
                     then Returns url0
                     else if url_scheme r \<in> set uses_netloc \<and> url_netloc r \<noteq> []
                     then Returns (urlunparse r)
                     else
                       (let r1 = (if url_scheme r \<in> set uses_netloc
                                  then r\<lparr>url_netloc := url_netloc b\<rparr> else r)
                        in if url_path r1 = [] \<and> url_params r1 = []
                           then Returns (urlunparse
                                  (r1\<lparr>url_path := url_path b, url_params := url_params b,
                                      url_query := (if url_query r1 = [] then url_query b
                                                    else url_query r1)\<rparr>))
                           else Returns (urlunparse
                                  (r1\<lparr>url_path := resolve_path (url_path b) (url_path r1)\<rparr>))))))"

section \<open>Call-to-action links and the page record (utils/parser.py, main.py)\<close>

record cta =
  cta_text :: string
  cta_href :: string

record page_record =
  url :: string
  title :: "string option"
  h1 :: "string option"
  meta_description :: "string option"
  rating :: "string option"
  review_count :: "string option"
  pricing :: "string option"
  ctas :: "cta list"
  status :: string

text \<open>\<^verbatim>\<open>a or d\<close> where \<open>a\<close> is an attribute that may be missing and \<open>d\<close> is a string.\<close>

definition attr_or :: "string option \<Rightarrow> string \<Rightarrow> string" where
  "attr_or a d = (case a of None \<Rightarrow> d | Some x \<Rightarrow> if x \<noteq> [] then x else d)"

text \<open>
  The body of the loop of \<^verbatim>\<open>get_btns\<close> for one element (lines 210 to 229): \<open>Returns
  None\<close> where the element adds no entry, \<open>Raises\<close> where \<^verbatim>\<open>urljoin\<close> raises.
\<close>

definition btn_entry :: "string \<Rightarrow> node \<Rightarrow> cta option outcome" where
  "btn_entry u e =
     (let t = (if node_name e = ''input''
               then str_strip (attr_or (get_attr e ''value'')
                                 (attr_or (get_attr e ''placeholder'') []))
               else get_text_clean (Some e))
      in if node_name e = ''input'' \<and> get_attr e ''type'' \<noteq> Some ''submit''
            \<and> get_attr e ''type'' \<noteq> Some ''button'' \<and> t = []
         then Returns None
         else if t = [] then Returns None
         else
           (case (if node_name e = ''a''
                  then (let h = str_strip (case get_attr e ''href'' of None \<Rightarrow> [] | Some x \<Rightarrow> x)
                        in if h \<noteq> [] then urljoin u h else Returns h)
                  else Returns [])
            of Raises \<Rightarrow> Raises
             | Returns h \<Rightarrow>
                 if list_ex (\<lambda>k. str_contains k (str_lower t) \<or> str_contains k (str_lower h))
                      CTA_KEYWORDS
                 then Returns (Some \<lparr>cta_text = t, cta_href = h\<rparr>)
                 else Returns None))"

text \<open>
  The loop of \<^verbatim>\<open>get_btns\<close>; a raise ends it, and the entries collected before it are
  returned.
\<close>

fun btns_scan :: "string \<Rightarrow> node list \<Rightarrow> cta list" where
  "btns_scan u [] = []"
| "btns_scan u (e # es) =
     (case btn_entry u e of
        Raises \<Rightarrow> []
      | Returns None \<Rightarrow> btns_scan u es
      | Returns (Some c) \<Rightarrow> c # btns_scan u es)"

definition get_btns :: "node \<Rightarrow> string \<Rightarrow> cta list" where
  "get_btns soup u =
     btns_scan u (soup_find_all (\<lambda>e. node_name e \<in> {''a'', ''button'', ''input''}) soup)"

definition make_empty :: "string \<Rightarrow> string \<Rightarrow> page_record" where
  "make_empty u st =
     \<lparr>url = u, title = None, h1 = None, meta_description = None, rating = None,
      review_count = None, pricing = None, ctas = [], status = st\<rparr>"

text \<open>
  \<^verbatim>\<open>extract_structured_data\<close>. \<open>parser\<close> is \<^verbatim>\<open>BeautifulSoup(html, "html.parser")\<close>, which
  returns the root of the tree or raises; \<open>loads\<close> is \<^verbatim>\<open>json.loads\<close>.
\<close>

definition extract_structured_data ::
  "(string \<Rightarrow> node outcome) \<Rightarrow> (string \<Rightarrow> loaded) \<Rightarrow> string \<Rightarrow> string \<Rightarrow> page_record" where
  "extract_structured_data parser loads u html =
     (let data = \<lparr>url = u, title = None, h1 = None, meta_description = None, rating = None,
                  review_count = None, pricing = None, ctas = [], status = ''ok''\<rparr>
      in case parser html of
           Raises \<Rightarrow> data\<lparr>status := ''failed''\<rparr>
         | Returns soup \<Rightarrow>
             (let data = data\<lparr>title := find_title soup\<rparr>;
                  data = data\<lparr>h1 := find_h1 soup\<rparr>;
                  data = data\<lparr>meta_description := find_meta soup\<rparr>;
                  objs = get_json_ld loads soup;
                  data = data\<lparr>rating := get_metric soup ''rating''\<rparr>;
                  data = (if rating data = None
                          then data\<lparr>rating :=
                                 read_json_data objs [''aggregateRating'', ''ratingValue'']\<rparr>
                          else data);
                  data = data\<lparr>review_count := get_metric soup ''review_count''\<rparr>;
                  data = (if review_count data = None
                          then data\<lparr>review_count :=
                                 read_json_data objs [''aggregateRating'', ''reviewCount'']\<rparr>
                          else data);
                  data = (if review_count data = None
                          then data\<lparr>review_count :=
                                 read_json_data objs [''aggregateRating'', ''ratingCount'']\<rparr>
                          else data);
                  data = data\<lparr>pricing := get_price soup\<rparr>;
                  data = (if pricing data = None
                          then data\<lparr>pricing := read_json_data objs [''offers'', ''price'']\<rparr>
                          else data);
                  data = data\<lparr>ctas := get_btns soup u\<rparr>
              in data))"

section \<open>The robots.txt gate (utils/robots.py)\<close>

text \<open>
  \<^verbatim>\<open>RobotFileParser\<close> of the standard library (\<^verbatim>\<open>Lib/urllib/robotparser.py\<close> of CPython
  3.11.10), as far as the source uses it. A parser has the two flags \<^verbatim>\<open>disallow_all\<close>
  and \<^verbatim>\<open>allow_all\<close> and, once a robots.txt has been parsed, its rules \<open>'r\<close>; only
  \<^verbatim>\<open>parse\<close> sets \<^verbatim>\<open>last_checked\<close>, so that attribute is set exactly when there are
  rules.
\<close>

record 'r robot_file_parser =
  disallow_all :: bool
  allow_all :: bool
  parsed :: "'r option"

definition new_robot_file_parser :: "'r robot_file_parser" where
  "new_robot_file_parser = \<lparr>disallow_all = False, allow_all = False, parsed = None\<rparr>"

text \<open>
  What the request for a robots.txt gives: \<^verbatim>\<open>urlopen\<close> raises \<^verbatim>\<open>HTTPError\<close> with a status
  code; or the call, the reading, the decoding or the parsing of the body raises
  something else (no connection, a timeout, a body that is not UTF-8); or the body is
  read and parsed into rules.
\<close>

datatype 'r robots_response = HTTP_Error int | Read_Raises | Robots_Body 'r

text \<open>
  The outside of the program: \<^verbatim>\<open>requests.get\<close>; the sleep of the system; the request
  for a robots.txt; the answer of parsed rules for an agent and a URL (the part of
  \<^verbatim>\<open>can_fetch\<close> after its three tests, which quotes the URL and asks the entries); the
  HTML parser and \<^verbatim>\<open>json.loads\<close>.
\<close>

record ('w, 'r) env =
  requests_get :: "string \<Rightarrow> 'w \<Rightarrow> response outcome \<times> 'w"
  os_sleep :: "int \<Rightarrow> 'w \<Rightarrow> unit outcome \<times> 'w"
  robots_urlopen :: "string \<Rightarrow> 'w \<Rightarrow> 'r robots_response \<times> 'w"
  rules_allow :: "'r \<Rightarrow> string \<Rightarrow> string \<Rightarrow> bool outcome"
  html_parser :: "string \<Rightarrow> node outcome"
  json_loads :: "string \<Rightarrow> loaded"

text \<open>
  \<^verbatim>\<open>RobotFileParser.read\<close>: an \<^verbatim>\<open>HTTPError\<close> is caught; the status 401 or 403 sets
  \<^verbatim>\<open>disallow_all\<close>, another status from 400 to 499 sets \<^verbatim>\<open>allow_all\<close>, any other
  status sets nothing. Every other exception leaves the method.
\<close>

definition robot_read ::
  "('w, 'r) env \<Rightarrow> string \<Rightarrow> 'r robot_file_parser \<Rightarrow> 'w \<Rightarrow> 'r robot_file_parser outcome \<times> 'w" where
  "robot_read E robots_url p w =
     (case robots_urlopen E robots_url w of (res, w') \<Rightarrow>
        (case res of
           HTTP_Error code \<Rightarrow>
             (Returns (if code \<in> {401, 403} then p\<lparr>disallow_all := True\<rparr>
                       else if code \<ge> 400 \<and> code < 500 then p\<lparr>allow_all := True\<rparr>
                       else p), w')
         | Read_Raises \<Rightarrow> (Raises, w')
         | Robots_Body rules \<Rightarrow> (Returns (p\<lparr>parsed := Some rules\<rparr>), w')))"

text \<open>
  \<^verbatim>\<open>RobotFileParser.can_fetch\<close>: \<open>False\<close> when \<^verbatim>\<open>disallow_all\<close> is set, \<open>True\<close> when
  \<^verbatim>\<open>allow_all\<close> is set, \<open>False\<close> when no robots.txt has been parsed, and the answer of
  the rules otherwise.
\<close>

definition can_fetch ::
  "('w, 'r) env \<Rightarrow> 'r robot_file_parser \<Rightarrow> string \<Rightarrow> string \<Rightarrow> bool outcome" where
  "can_fetch E p useragent u =
     (if disallow_all p then Returns False
      else if allow_all p then Returns True
      else (case parsed p of
              None \<Rightarrow> Returns False
            | Some rules \<Rightarrow> rules_allow E rules useragent u))"

definition get_base_domain :: "string \<Rightarrow> string outcome" where
  "get_base_domain u =
     (case urlparse u [] of
        Raises \<Rightarrow> Raises
      | Returns parsed_url \<Rightarrow> Returns (url_scheme parsed_url @ ''://'' @ url_netloc parsed_url))"

text \<open>
  \<^verbatim>\<open>_get_robot_parser\<close>: a cached parser is returned as it is. Otherwise a new parser
  is given the URL of the robots.txt (\<^verbatim>\<open>set_url\<close> parses it, outside the \<^verbatim>\<open>try\<close> of this
  function) and reads it; the parser is cached and returned when \<^verbatim>\<open>read\<close> did not
  raise, and \<^verbatim>\<open>None\<close> is returned when it did.
\<close>

definition get_robot_parser ::
  "('w, 'r) env \<Rightarrow> string \<Rightarrow> ('w, 'r robot_file_parser) state \<Rightarrow>
   'r robot_file_parser option outcome \<times> ('w, 'r robot_file_parser) state" where
  "get_robot_parser E base_domain s =
     (case robots_cache s base_domain of
        Some p \<Rightarrow> (Returns (Some p), s)
      | None \<Rightarrow>
          (let robots_url = base_domain @ ''/robots.txt'' in
           case urlparse robots_url [] of
             Raises \<Rightarrow> (Raises, s)
           | Returns parsed_url \<Rightarrow>
               (case robot_read E robots_url new_robot_file_parser (world s) of (res, w') \<Rightarrow>
                  (let s1 = s\<lparr>world := w', trace := trace s @ [Robots_Read robots_url]\<rparr> in
                   case res of
                     Returns p \<Rightarrow>
                       (Returns (Some p),
                        s1\<lparr>robots_cache := (robots_cache s1)(base_domain \<mapsto> p)\<rparr>)
                   | Raises \<Rightarrow> (Returns None, s1)))))"

definition disallowed_reason :: "string \<Rightarrow> string" where
  "disallowed_reason agent =
     ''Robots.txt disallowed access for agent '' @ [CHR 0x27] @ agent @ [CHR 0x27]"

definition default_agent :: string where
  "default_agent = ''scraper_project/1.0''"

text \<open>\<^verbatim>\<open>is_allowed\<close>: every raise below it gives \<open>True\<close> with the empty reason.\<close>

definition is_allowed ::
  "('w, 'r) env \<Rightarrow> string \<Rightarrow> string \<Rightarrow> ('w, 'r robot_file_parser) state \<Rightarrow>
   (bool \<times> string) \<times> ('w, 'r robot_file_parser) state" where
  "is_allowed E u agent s =
     (case get_base_domain u of
        Raises \<Rightarrow> ((True, []), s)
      | Returns base \<Rightarrow>
          (case get_robot_parser E base s of
             (Raises, s1) \<Rightarrow> ((True, []), s1)
           | (Returns None, s1) \<Rightarrow> ((True, []), s1)
           | (Returns (Some p), s1) \<Rightarrow>
               (case can_fetch E p agent u of
                  Raises \<Rightarrow> ((True, []), s1)
                | Returns ok \<Rightarrow>
                    if ok then ((True, []), s1)
                    else ((False, disallowed_reason agent), s1))))"

section \<open>The pipeline (main.py)\<close>

text \<open>
  The body of the \<^verbatim>\<open>try\<close> in the loop of \<^verbatim>\<open>start_scraping\<close> for one URL (lines 177 to
  207): the record it appends, or a raise for the handler of the loop. The fetcher is
  called with its defaults, three retries and a base delay of two seconds. The politeness
  delay, a sleep of two to five seconds, is taken to return.
\<close>

definition scrape_url ::
  "('w, 'r) env \<Rightarrow> string \<Rightarrow> ('w, 'r robot_file_parser) state \<Rightarrow>
   page_record outcome \<times> ('w, 'r robot_file_parser) state" where
  "scrape_url E u s =
     (case is_allowed E u default_agent s of ((allowed, reason), s1) \<Rightarrow>
        if \<not> allowed then (Returns (make_empty u ''skipped''), s1)
        else
          (let s2 = s1\<lparr>trace := trace s1 @ [Politeness_Delay]\<rparr> in
           case fetch_url_data (requests_get E) (os_sleep E) u 3 2 s2 of
             (Raises, s3) \<Rightarrow> (Raises, s3)
           | (Returns None, s3) \<Rightarrow> (Returns (make_empty u ''failed''), s3)
           | (Returns (Some resp), s3) \<Rightarrow>
               if getattr_was_blocked resp then (Returns (make_empty u ''blocked''), s3)
               else if status_code resp \<ge> 400 then (Returns (make_empty u ''failed''), s3)
               else (case resp_text resp of
                       Raises \<Rightarrow> (Raises, s3)
                     | Returns html \<Rightarrow>
                         (Returns (extract_structured_data (html_parser E) (json_loads E) u html),
                          s3))))"

text \<open>
  The loop of \<^verbatim>\<open>start_scraping\<close>: the handler of the loop appends a failed record for
  the URL whose processing raised, and the loop goes on.
\<close>

fun start_scraping ::
  "('w, 'r) env \<Rightarrow> string list \<Rightarrow> ('w, 'r robot_file_parser) state \<Rightarrow>
   page_record list \<times> ('w, 'r robot_file_parser) state" where
  "start_scraping E [] s = ([], s)"
| "start_scraping E (u # urls) s =
     (case scrape_url E u s of (res, s1) \<Rightarrow>
        (let r = (case res of Raises \<Rightarrow> make_empty u ''failed'' | Returns parsed_data \<Rightarrow> parsed_data)
         in case start_scraping E urls s1 of (rs, s2) \<Rightarrow> (r # rs, s2)))"

section \<open>Properties\<close>

subsection \<open>Strings and block detection\<close>

lemma str_lower_append: "str_lower (a @ b) = str_lower a @ str_lower b"
  by (simp add: str_lower_def)

lemma str_contains_mid: "str_contains k (a @ k @ b)"
  by (simp add: str_contains_def)

lemma check_blocking_403: "status_code r = 403 \<Longrightarrow> check_blocking r"
  by (simp add: check_blocking_def)

lemma check_blocking_captcha:
  assumes "resp_text r = Returns (pre @ k @ post)" and "str_lower k = ''captcha''"
  shows "check_blocking r"
proof -
  have "str_lower (pre @ k @ post) = str_lower pre @ ''captcha'' @ str_lower post"
    using assms(2) by (simp add: str_lower_append)
  then have "str_contains ''captcha'' (str_lower (pre @ k @ post))"
    by (simp only: str_contains_mid)
  then show ?thesis
    using assms(1) by (simp add: check_blocking_def BLOCK_KEYWORDS_def)
qed

subsection \<open>The fetcher\<close>

lemma upt_tries_Cons: "0 \<le> tries \<Longrightarrow> [0..<nat (tries + 1)] = 0 # [1..<nat (tries + 1)]"
  by (simp add: upt_rec)

lemma fetch_attempt_blocked:
  assumes "get u (world s) = (Returns r, w')" and "check_blocking r"
  shows "fetch_attempt get sleep u tries wait i s =
           Done (Returns (Some (r\<lparr>was_blocked := Some True\<rparr>)))
                (s\<lparr>world := w', trace := trace s @ [Request u]\<rparr>)"
  using assms by (simp add: fetch_attempt_def)

text \<open>A first response that the block detector flags ends the fetch at once.\<close>

lemma fetch_url_data_blocked:
  assumes "get u (world s) = (Returns r, w')" and "check_blocking r" and "0 \<le> tries"
  shows "fetch_url_data get sleep u tries wait s =
           (Returns (Some (r\<lparr>was_blocked := Some True\<rparr>)),
            s\<lparr>world := w', trace := trace s @ [Request u]\<rparr>)"
  using assms by (simp add: fetch_url_data_def upt_tries_Cons fetch_attempt_blocked)

lemma outcome_of_flagged: "outcome_of (Some (r\<lparr>was_blocked := Some True\<rparr>)) = Blocked"
  by (simp add: outcome_of_def getattr_was_blocked_def)

lemma fetch_attempt_retry:
  assumes "get u (world s) = (Returns r, w')" and "\<not> check_blocking r"
      and "status_code r \<in> retry_codes" and "0 \<le> wait"
      and "sleep (wait * 2 ^ i) w' = (Returns (), w'')"
  shows "fetch_attempt get sleep u tries wait i s =
           (if int i < tries
            then Continue (s\<lparr>world := w'', trace := trace s @ [Request u, Sleep (wait * 2 ^ i)]\<rparr>)
            else Done (Returns None) (s\<lparr>world := w', trace := trace s @ [Request u]\<rparr>))"
proof -
  have "status_code r \<noteq> 403"
    using assms(2) by (auto simp: check_blocking_def)
  moreover have "\<not> wait * 2 ^ i < 0"
    using assms(4) by (simp add: not_less)
  ultimately show ?thesis
    using assms by (simp add: fetch_attempt_def time_sleep_def Let_def)
qed

lemma fetch_attempt_last:
  assumes "get u (world s) = (Returns r, w')" and "\<not> check_blocking r"
      and "status_code r \<in> retry_codes" and "\<not> int i < tries"
  shows "fetch_attempt get sleep u tries wait i s =
           Done (Returns None) (s\<lparr>world := w', trace := trace s @ [Request u]\<rparr>)"
proof -
  have "status_code r \<noteq> 403"
    using assms(2) by (auto simp: check_blocking_def)
  then show ?thesis
    using assms by (simp add: fetch_attempt_def Let_def)
qed

text \<open>
  The loop from attempt \<open>i\<close> on, while every response is retryable and not flagged and
  every backoff sleep returns: by induction on the number of attempts that are left. \<open>W\<close>
  is any set of worlds that the requests and the sleeps do not leave.
\<close>

lemma fetch_loop_retry:
  assumes step: "\<And>w. W w \<Longrightarrow> \<exists>r w'. get u w = (Returns r, w') \<and> W w'
                    \<and> status_code r \<in> retry_codes \<and> \<not> check_blocking r"
      and nap: "\<And>w j. W w \<Longrightarrow> j < nat tries \<Longrightarrow>
                    \<exists>w'. sleep (wait * 2 ^ j) w = (Returns (), w') \<and> W w'"
      and "0 \<le> wait"
  shows "W (world s) \<Longrightarrow> n = nat tries - i \<Longrightarrow> i \<le> nat tries \<Longrightarrow> 0 \<le> tries \<Longrightarrow>
         \<exists>s'. fetch_loop get sleep u tries wait [i..<Suc (nat tries)] s = (Returns None, s')
              \<and> W (world s')
              \<and> trace s' = trace s
                   @ concat (map (\<lambda>j. [Request u, Sleep (wait * 2 ^ j)]) [i..<nat tries])
                   @ [Request u]"
proof (induction n arbitrary: i s)
  case 0
  then have i: "i = nat tries" by simp
  from step [OF \<open>W (world s)\<close>] obtain r w' where
    g: "get u (world s) = (Returns r, w')" and w: "W w'"
    and rc: "status_code r \<in> retry_codes" and nb: "\<not> check_blocking r" by blast
  have "\<not> int i < tries" using i 0 by simp
  then show ?case
    using fetch_attempt_last [where get = get and sleep = sleep and u = u and s = s
            and tries = tries and i = i and wait = wait, OF g nb rc] i w
    by (simp add: upt_rec)
next
  case (Suc n)
  then have lt: "i < nat tries" by simp
  from step [OF \<open>W (world s)\<close>] obtain r w' where
    g: "get u (world s) = (Returns r, w')" and w: "W w'"
    and rc: "status_code r \<in> retry_codes" and nb: "\<not> check_blocking r" by blast
  from nap [OF w lt] obtain w'' where
    sl: "sleep (wait * 2 ^ i) w' = (Returns (), w'')" and w2: "W w''" by blast
  let ?s1 = "s\<lparr>world := w'', trace := trace s @ [Request u, Sleep (wait * 2 ^ i)]\<rparr>"
  have ilt: "int i < tries" using lt by simp
  have att: "fetch_attempt get sleep u tries wait i s = Continue ?s1"
    using fetch_attempt_retry [where get = get and sleep = sleep and u = u and s = s
            and tries = tries and i = i, OF g nb rc \<open>0 \<le> wait\<close> sl] ilt by simp
  have "\<exists>s'. fetch_loop get sleep u tries wait [Suc i..<Suc (nat tries)] ?s1 = (Returns None, s')
              \<and> W (world s')
              \<and> trace s' = trace ?s1
                   @ concat (map (\<lambda>j. [Request u, Sleep (wait * 2 ^ j)]) [Suc i..<nat tries])
                   @ [Request u]"
    using Suc.IH [of ?s1 "Suc i"] Suc.prems w2 lt by simp
  then obtain s' where
    l: "fetch_loop get sleep u tries wait [Suc i..<Suc (nat tries)] ?s1 = (Returns None, s')"
    and w': "W (world s')"
    and t: "trace s' = trace ?s1
                   @ concat (map (\<lambda>j. [Request u, Sleep (wait * 2 ^ j)]) [Suc i..<nat tries])
                   @ [Request u]" by blast
  have u1: "[i..<Suc (nat tries)] = i # [Suc i..<Suc (nat tries)]"
    using lt by (simp add: upt_rec)
  have u2: "[i..<nat tries] = i # [Suc i..<nat tries]"
    using lt by (simp add: upt_rec)
  have "fetch_loop get sleep u tries wait [i..<Suc (nat tries)] s = (Returns None, s')"
    by (simp only: u1 fetch_loop.simps att step.case l)
  moreover have "trace s' = trace s
                   @ concat (map (\<lambda>j. [Request u, Sleep (wait * 2 ^ j)]) [i..<nat tries])
                   @ [Request u]"
    by (simp only: u2 t) simp
  ultimately show ?case using w' by blast
qed

text \<open>
  C1. The claim: a response with status 403 makes the fetcher return Failed at once, with
  no retry and no backoff sleep. The fetcher asks \<open>check_blocking\<close> first, and
  \<open>check_blocking\<close> counts the status 403 as a blocking signal: the response comes back
  flagged as blocked, which the pipeline reads as Blocked and records as
  \<^verbatim>\<open>status=blocked\<close>, not as Failed. The test for 403 in \<open>fetch_attempt\<close> is never reached
  with that status. The counterexample runs the fetcher and the pipeline on a server that
  always answers 403.
\<close>

theorem c1_status_403_is_not_failed:
  "fst (fetch_url_data
     (\<lambda>u w. (Returns \<lparr>status_code = 403, resp_text = Returns ''Forbidden'', was_blocked = None\<rparr>, w))
     (\<lambda>t w. (Returns (), w))
     ''https://example.com/'' 3 2
     \<lparr>world = (), robots_cache = (Map.empty :: string \<rightharpoonup> unit), trace = []\<rparr>)
   = Returns (Some \<lparr>status_code = 403, resp_text = Returns ''Forbidden'', was_blocked = Some True\<rparr>)
   \<and> outcome_of (Some \<lparr>status_code = 403, resp_text = Returns ''Forbidden'', was_blocked = Some True\<rparr>)
       \<noteq> Failed
   \<and> map status (fst (start_scraping
        \<lparr>requests_get = (\<lambda>u w. (Returns \<lparr>status_code = 403, resp_text = Returns ''Forbidden'',
                                         was_blocked = None\<rparr>, w)),
         os_sleep = (\<lambda>t w. (Returns (), w)),
         robots_urlopen = (\<lambda>u w. (Read_Raises :: unit robots_response, w)),
         rules_allow = (\<lambda>r a u. Returns True),
         html_parser = (\<lambda>h. Raises),
         json_loads = (\<lambda>t. JSONDecodeError)\<rparr>
        [''https://example.com/'']
        \<lparr>world = (), robots_cache = Map.empty, trace = []\<rparr>)) = [''blocked'']"
  by code_simp

text \<open>
  C1, as amended: when the first response to a fetch has status 403, the fetcher returns
  that response flagged as blocked (the outcome Blocked), having sent one request and
  slept not at all.
\<close>

theorem c1_status_403_blocked_without_retry:
  assumes "get u (world s) = (Returns r, w')" and "status_code r = 403" and "0 \<le> tries"
  shows "fetch_url_data get sleep u tries wait s =
           (Returns (Some (r\<lparr>was_blocked := Some True\<rparr>)),
            s\<lparr>world := w', trace := trace s @ [Request u]\<rparr>)
         \<and> outcome_of (Some (r\<lparr>was_blocked := Some True\<rparr>)) = Blocked"
  using assms by (simp add: fetch_url_data_blocked check_blocking_403 outcome_of_flagged)

theorem c1_status_403_blocked_without_retry_witness:
  "fetch_url_data
     (\<lambda>u w. (Returns \<lparr>status_code = 403, resp_text = Returns ''Forbidden'', was_blocked = None\<rparr>, w))
     (\<lambda>t w. (Returns (), w))
     ''https://example.com/'' 3 2
     \<lparr>world = (), robots_cache = (Map.empty :: string \<rightharpoonup> unit), trace = []\<rparr>
   = (Returns (Some \<lparr>status_code = 403, resp_text = Returns ''Forbidden'', was_blocked = Some True\<rparr>),
      \<lparr>world = (), robots_cache = Map.empty, trace = [Request ''https://example.com/'']\<rparr>)
   \<and> outcome_of (Some \<lparr>status_code = 403, resp_text = Returns ''Forbidden'', was_blocked = Some True\<rparr>)
       = Blocked"
  using c1_status_403_blocked_without_retry
    [where get = "\<lambda>u w. (Returns \<lparr>status_code = 403, resp_text = Returns ''Forbidden'', was_blocked = None\<rparr>, w)"
       and sleep = "\<lambda>t w. (Returns (), w)"
       and u = "''https://example.com/''"
       and s = "\<lparr>world = (), robots_cache = (Map.empty :: string \<rightharpoonup> unit), trace = []\<rparr>"
       and r = "\<lparr>status_code = 403, resp_text = Returns ''Forbidden'', was_blocked = None\<rparr>"
       and w' = "()" and tries = 3 and wait = 2]
  by simp

text \<open>
  C2. The claim: when every attempt gets a status in the retryable set 429, 500, 502, 503,
  504, the fetcher makes exactly \<open>tries\<close> retries, sleeps \<open>wait * 2 ^ i\<close> seconds before
  retry \<open>i\<close>, and returns Failed. The block detector runs before the retry test: a
  response with status 429 or 503, and a response with any status whose body has a
  blocking phrase, comes back flagged as blocked after one request. The counterexample
  shows both, on a server that always answers 429 and on one that always answers 500 with
  a body that says captcha. Its third part is a sleep that does not return:
  \<^verbatim>\<open>time.sleep\<close> raises \<^verbatim>\<open>OverflowError\<close> for a length of \<open>10 ^ 10\<close> seconds, the handler of
  the only attempt that \<open>tries = 1\<close> leaves after it re-raises, and the fetch raises after
  one request, with neither a retry nor a value.
\<close>

theorem c2_retryable_status_may_end_without_retry:
  "fst (fetch_url_data
     (\<lambda>u w. (Returns \<lparr>status_code = 429, resp_text = Returns ''Too Many Requests'',
                        was_blocked = None\<rparr>, w))
     (\<lambda>t w. (Returns (), w))
     ''https://example.com/'' 3 2
     \<lparr>world = (), robots_cache = (Map.empty :: string \<rightharpoonup> unit), trace = []\<rparr>)
   = Returns (Some \<lparr>status_code = 429, resp_text = Returns ''Too Many Requests'',
                     was_blocked = Some True\<rparr>)
   \<and> trace (snd (fetch_url_data
     (\<lambda>u w. (Returns \<lparr>status_code = 429, resp_text = Returns ''Too Many Requests'',
                        was_blocked = None\<rparr>, w))
     (\<lambda>t w. (Returns (), w))
     ''https://example.com/'' 3 2
     \<lparr>world = (), robots_cache = (Map.empty :: string \<rightharpoonup> unit), trace = []\<rparr>))
   = [Request ''https://example.com/'']
   \<and> fst (fetch_url_data
     (\<lambda>u w. (Returns \<lparr>status_code = 500, resp_text = Returns ''Solve this captcha'',
                        was_blocked = None\<rparr>, w))
     (\<lambda>t w. (Returns (), w))
     ''https://example.com/'' 3 2
     \<lparr>world = (), robots_cache = (Map.empty :: string \<rightharpoonup> unit), trace = []\<rparr>)
   = Returns (Some \<lparr>status_code = 500, resp_text = Returns ''Solve this captcha'',
                     was_blocked = Some True\<rparr>)
   \<and> trace (snd (fetch_url_data
     (\<lambda>u w. (Returns \<lparr>status_code = 500, resp_text = Returns ''Solve this captcha'',
                        was_blocked = None\<rparr>, w))
     (\<lambda>t w. (Returns (), w))
     ''https://example.com/'' 3 2
     \<lparr>world = (), robots_cache = (Map.empty :: string \<rightharpoonup> unit), trace = []\<rparr>))
   = [Request ''https://example.com/'']
   \<and> fst (fetch_url_data
     (\<lambda>u w. (Returns \<lparr>status_code = 500, resp_text = Returns ''Internal Server Error'',
                        was_blocked = None\<rparr>, w))
     (\<lambda>t w. (if 9223372036 < t then Raises else Returns (), w))
     ''https://example.com/'' 1 10000000000
     \<lparr>world = (), robots_cache = (Map.empty :: string \<rightharpoonup> unit), trace = []\<rparr>)
   = Raises
   \<and> trace (snd (fetch_url_data
     (\<lambda>u w. (Returns \<lparr>status_code = 500, resp_text = Returns ''Internal Server Error'',
                        was_blocked = None\<rparr>, w))
     (\<lambda>t w. (if 9223372036 < t then Raises else Returns (), w))
     ''https://example.com/'' 1 10000000000
     \<lparr>world = (), robots_cache = (Map.empty :: string \<rightharpoonup> unit), trace = []\<rparr>))
   = [Request ''https://example.com/'']"
  by code_simp

text \<open>
  C2, as amended: when every attempt gets a response whose status is in the retryable set
  and which the block detector does not flag (so the status is 500, 502 or 504 and the
  body has no blocking phrase), and every backoff sleep returns (the sleep of
  \<open>wait * 2 ^ i\<close> seconds for each \<open>i\<close> below \<open>tries\<close>: \<^verbatim>\<open>time.sleep\<close> raises for a
  length that the platform does not take), the fetcher sends \<open>tries + 1\<close> requests, sleeps
  \<open>wait * 2 ^ i\<close> seconds after request \<open>i\<close> for \<open>i\<close> from 0 to \<open>tries - 1\<close>, and
  returns \<^verbatim>\<open>None\<close>, the outcome Failed. \<open>W\<close> is a set of states of the world that the
  requests and the sleeps do not leave.
\<close>

theorem c2_retryable_unflagged_retries_then_failed:
  assumes "W (world s)"
      and "\<forall>w. W w \<longrightarrow> (\<exists>r w'. get u w = (Returns r, w') \<and> W w'
              \<and> status_code r \<in> retry_codes \<and> \<not> check_blocking r)"
      and "\<forall>w i. W w \<and> i < nat tries \<longrightarrow>
              (\<exists>w'. sleep (wait * 2 ^ i) w = (Returns (), w') \<and> W w')"
      and "0 \<le> tries" and "0 \<le> wait"
  shows "\<exists>s'. fetch_url_data get sleep u tries wait s = (Returns None, s')
              \<and> outcome_of None = Failed
              \<and> trace s' = trace s
                   @ concat (map (\<lambda>i. [Request u, Sleep (wait * 2 ^ i)]) [0..<nat tries])
                   @ [Request u]"
proof -
  have n: "nat (tries + 1) = Suc (nat tries)" using assms(4) by simp
  have step: "\<And>w. W w \<Longrightarrow> \<exists>r w'. get u w = (Returns r, w') \<and> W w'
                    \<and> status_code r \<in> retry_codes \<and> \<not> check_blocking r"
    using assms(2) by blast
  have nap: "\<And>w j. W w \<Longrightarrow> j < nat tries \<Longrightarrow>
                    \<exists>w'. sleep (wait * 2 ^ j) w = (Returns (), w') \<and> W w'"
    using assms(3) by blast
  have "\<exists>s'. fetch_loop get sleep u tries wait [0..<Suc (nat tries)] s = (Returns None, s')
              \<and> W (world s')
              \<and> trace s' = trace s
                   @ concat (map (\<lambda>j. [Request u, Sleep (wait * 2 ^ j)]) [0..<nat tries])
                   @ [Request u]"
    using fetch_loop_retry [where W = W and get = get and sleep = sleep and u = u
                              and wait = wait and s = s and tries = tries and i = 0,
                            OF step nap \<open>0 \<le> wait\<close> \<open>W (world s)\<close>] assms(4)
    by simp
  then show ?thesis
    by (auto simp: fetch_url_data_def n outcome_of_def)
qed

theorem c2_retryable_unflagged_retries_then_failed_witness:
  "\<exists>s'. fetch_url_data
          (\<lambda>u w. (Returns \<lparr>status_code = 500, resp_text = Returns ''Internal Server Error'',
                             was_blocked = None\<rparr>, w))
          (\<lambda>t w. (if 9223372036 < t then Raises else Returns (), w))
          ''https://example.com/'' 3 2
          \<lparr>world = (), robots_cache = (Map.empty :: string \<rightharpoonup> unit), trace = []\<rparr>
        = (Returns None, s')
      \<and> trace s' = [Request ''https://example.com/'', Sleep 2,
                     Request ''https://example.com/'', Sleep 4,
                     Request ''https://example.com/'', Sleep 8,
                     Request ''https://example.com/'']"
proof -
  let ?r = "\<lparr>status_code = 500, resp_text = Returns ''Internal Server Error'',
             was_blocked = None\<rparr>"
  have nb: "\<not> check_blocking ?r"
    by code_simp
  have rc: "status_code ?r \<in> retry_codes"
    by (simp add: retry_codes_def)
  have up: "[0..<3] = [0, 1, 2::nat]"
    by code_simp
  have sl: "\<forall>(w::unit) i. True \<and> i < nat 3 \<longrightarrow>
              (\<exists>w'. (if 9223372036 < (2::int) * 2 ^ i then Raises else Returns (), w)
                      = (Returns (), w') \<and> True)"
  proof (intro allI impI)
    fix w :: unit and i :: nat
    assume "True \<and> i < nat 3"
    then have "i = 0 \<or> i = 1 \<or> i = 2" by auto
    then show "\<exists>w'. (if 9223372036 < (2::int) * 2 ^ i then Raises else Returns (), w)
                      = (Returns (), w') \<and> True"
      by auto
  qed
  show ?thesis
    using c2_retryable_unflagged_retries_then_failed
            [where W = "\<lambda>w. True"
               and s = "\<lparr>world = (), robots_cache = (Map.empty :: string \<rightharpoonup> unit), trace = []\<rparr>"
               and get = "\<lambda>u w. (Returns ?r, w)"
               and sleep = "\<lambda>t w. (if 9223372036 < t then Raises else Returns (), w)"
               and u = "''https://example.com/''" and tries = 3 and wait = 2] nb rc sl
    by (auto simp add: up)
qed

subsection \<open>The pipeline\<close>

lemma make_empty_fields:
  "url (make_empty u st) = u" "status (make_empty u st) = st"
  "title (make_empty u st) = None" "h1 (make_empty u st) = None"
  "meta_description (make_empty u st) = None" "rating (make_empty u st) = None"
  "review_count (make_empty u st) = None" "pricing (make_empty u st) = None"
  "ctas (make_empty u st) = []"
  by (simp_all add: make_empty_def)

lemma extract_raises:
  "parser html = Raises \<Longrightarrow> extract_structured_data parser loads u html = make_empty u ''failed''"
  by (simp add: extract_structured_data_def make_empty_def)

lemma extract_returns_status:
  "parser html = Returns soup \<Longrightarrow> status (extract_structured_data parser loads u html) = ''ok''"
  by (simp add: extract_structured_data_def Let_def)

lemma extract_url: "url (extract_structured_data parser loads u html) = u"
  by (cases "parser html") (simp_all add: extract_structured_data_def Let_def)

lemma extract_not_ok:
  assumes "status (extract_structured_data parser loads u html) \<noteq> ''ok''"
  shows "extract_structured_data parser loads u html = make_empty u ''failed''"
proof (cases "parser html")
  case Raises
  then show ?thesis by (rule extract_raises)
next
  case (Returns soup)
  then show ?thesis using assms extract_returns_status by blast
qed

text \<open>The record that the body of the loop returns for one URL.\<close>

lemma scrape_url_cases:
  assumes "fst (scrape_url E u s) = Returns r"
  shows "r = make_empty u ''skipped'' \<or> r = make_empty u ''failed''
         \<or> r = make_empty u ''blocked''
         \<or> (\<exists>html. r = extract_structured_data (html_parser E) (json_loads E) u html)"
  using assms
  by (auto simp: scrape_url_def Let_def
           split: prod.splits if_splits outcome.splits option.splits)

lemma start_scraping_step:
  "fst (start_scraping E (u # urls) s) =
     (case fst (scrape_url E u s) of Raises \<Rightarrow> make_empty u ''failed'' | Returns r \<Rightarrow> r)
     # fst (start_scraping E urls (snd (scrape_url E u s)))"
  by (simp add: split_beta Let_def)

lemma start_scraping_snd_step:
  "snd (start_scraping E (u # urls) s) = snd (start_scraping E urls (snd (scrape_url E u s)))"
  by (simp add: split_beta Let_def)

lemma start_scraping_append:
  "fst (start_scraping E (xs @ ys) s) =
     fst (start_scraping E xs s) @ fst (start_scraping E ys (snd (start_scraping E xs s)))"
proof (induction xs arbitrary: s)
  case Nil
  show ?case by simp
next
  case (Cons x xs)
  show ?case
    by (simp only: append_Cons start_scraping_step start_scraping_snd_step Cons.IH)
qed

lemma start_scraping_length: "length (fst (start_scraping E urls s)) = length urls"
proof (induction urls arbitrary: s)
  case Nil
  show ?case by simp
next
  case (Cons u urls)
  show ?case by (simp only: start_scraping_step list.size Cons.IH)
qed

lemma record_of_url:
  "url (case fst (scrape_url E u s) of Raises \<Rightarrow> make_empty u ''failed'' | Returns r \<Rightarrow> r) = u"
proof (cases "fst (scrape_url E u s)")
  case Raises
  then show ?thesis by (simp add: make_empty_fields)
next
  case (Returns r)
  then show ?thesis
    using scrape_url_cases [OF Returns] by (auto simp: make_empty_fields extract_url)
qed

lemma start_scraping_urls: "map url (fst (start_scraping E urls s)) = urls"
proof (induction urls arbitrary: s)
  case Nil
  show ?case by simp
next
  case (Cons u urls)
  show ?case by (simp only: start_scraping_step list.map record_of_url Cons.IH)
qed

lemma scrape_url_blocked:
  assumes "fst (is_allowed E u default_agent s0) = (True, reason)"
      and "requests_get E u (world (snd (is_allowed E u default_agent s0))) = (Returns r, w1)"
      and "check_blocking r"
  shows "fst (scrape_url E u s0) = Returns (make_empty u ''blocked'')"
proof -
  obtain s1 where ia: "is_allowed E u default_agent s0 = ((True, reason), s1)"
    using assms(1) by (cases "is_allowed E u default_agent s0") auto
  let ?s2 = "s1\<lparr>trace := trace s1 @ [Politeness_Delay]\<rparr>"
  have g: "requests_get E u (world ?s2) = (Returns r, w1)"
    using assms(2) ia by simp
  have "fetch_url_data (requests_get E) (os_sleep E) u 3 2 ?s2 =
          (Returns (Some (r\<lparr>was_blocked := Some True\<rparr>)),
           ?s2\<lparr>world := w1, trace := trace ?s2 @ [Request u]\<rparr>)"
    using g assms(3) by (intro fetch_url_data_blocked) simp_all
  then show ?thesis
    using ia by (simp add: scrape_url_def getattr_was_blocked_def)
qed

text \<open>
  C5. When the body of the first response has the word captcha in any letter case,
  whatever the status code, the fetcher returns the response flagged as blocked (the
  outcome Blocked), having sent one request and slept not at all; and where the robots.txt
  gate lets the URL through and that response is the first answer to its request, the
  pipeline records \<^verbatim>\<open>status=blocked\<close> for the URL. The body is \<open>pre @ k @ post\<close>, with
  \<open>k\<close> the word in some letter case.
\<close>

theorem c5_captcha_body_blocked_without_retry:
  assumes "resp_text r = Returns (pre @ k @ post)" and "str_lower k = ''captcha''"
  shows "(0 \<le> tries \<and> get u (world s) = (Returns r, w') \<longrightarrow>
            fetch_url_data get sleep u tries wait s =
              (Returns (Some (r\<lparr>was_blocked := Some True\<rparr>)),
               s\<lparr>world := w', trace := trace s @ [Request u]\<rparr>)
            \<and> outcome_of (Some (r\<lparr>was_blocked := Some True\<rparr>)) = Blocked)
       \<and> (fst (is_allowed E u default_agent s0) = (True, reason)
            \<and> requests_get E u (world (snd (is_allowed E u default_agent s0))) = (Returns r, w1) \<longrightarrow>
            fst (start_scraping E [u] s0) = [make_empty u ''blocked''])"
proof -
  have b: "check_blocking r"
    using assms by (rule check_blocking_captcha)
  show ?thesis
    using b by (simp add: fetch_url_data_blocked outcome_of_flagged scrape_url_blocked
                          start_scraping_step del: start_scraping.simps(2))
qed

text \<open>A server that answers 200 with a challenge page; its robots.txt cannot be read.\<close>

theorem c5_captcha_body_blocked_without_retry_witness:
  "fetch_url_data
     (\<lambda>u w. (Returns \<lparr>status_code = 200, resp_text = Returns ''Please solve the CAPTCHA first'',
                        was_blocked = None\<rparr>, w))
     (\<lambda>t w. (Returns (), w))
     ''https://example.com/'' 3 2
     \<lparr>world = (), robots_cache = (Map.empty :: string \<rightharpoonup> unit robot_file_parser), trace = []\<rparr>
   = (Returns (Some \<lparr>status_code = 200, resp_text = Returns ''Please solve the CAPTCHA first'',
                     was_blocked = Some True\<rparr>),
      \<lparr>world = (), robots_cache = Map.empty, trace = [Request ''https://example.com/'']\<rparr>)
   \<and> fst (start_scraping
        \<lparr>requests_get = (\<lambda>u w. (Returns \<lparr>status_code = 200,
                              resp_text = Returns ''Please solve the CAPTCHA first'',
                              was_blocked = None\<rparr>, w)),
         os_sleep = (\<lambda>t w. (Returns (), w)),
         robots_urlopen = (\<lambda>u w. (Read_Raises :: unit robots_response, w)),
         rules_allow = (\<lambda>r a u. Returns True),
         html_parser = (\<lambda>h. Raises),
         json_loads = (\<lambda>t. JSONDecodeError)\<rparr>
        [''https://example.com/'']
        \<lparr>world = (), robots_cache = Map.empty, trace = []\<rparr>)
     = [make_empty ''https://example.com/'' ''blocked'']"
proof -
  let ?r = "\<lparr>status_code = 200, resp_text = Returns ''Please solve the CAPTCHA first'',
             was_blocked = None\<rparr>"
  let ?E = "\<lparr>requests_get = (\<lambda>u w. (Returns ?r, w)),
         os_sleep = (\<lambda>t w. (Returns (), w)),
         robots_urlopen = (\<lambda>u w. (Read_Raises :: unit robots_response, w)),
         rules_allow = (\<lambda>r a u. Returns True),
         html_parser = (\<lambda>h. Raises),
         json_loads = (\<lambda>t. JSONDecodeError)\<rparr> :: (unit, unit) env"
  let ?s = "\<lparr>world = (), robots_cache = (Map.empty :: string \<rightharpoonup> unit robot_file_parser), trace = []\<rparr>"
  have h1: "resp_text ?r = Returns (''Please solve the '' @ ''CAPTCHA'' @ '' first'')"
    by simp
  have h2: "str_lower ''CAPTCHA'' = ''captcha''"
    by code_simp
  have h3: "fst (is_allowed ?E ''https://example.com/'' default_agent ?s) = (True, [])"
    by code_simp
  show ?thesis
    using c5_captcha_body_blocked_without_retry
            [where r = ?r and pre = "''Please solve the ''" and k = "''CAPTCHA''"
               and post = "'' first''" and tries = 3 and get = "\<lambda>u w. (Returns ?r, w)"
               and sleep = "\<lambda>t w. (Returns (), w)" and u = "''https://example.com/''"
               and s = ?s and w' = "()" and wait = 2 and E = ?E and ?s0.0 = ?s
               and reason = "[]" and ?w1.0 = "()"] h1 h2 h3
    by (simp del: start_scraping.simps(2))
qed

text \<open>
  C3. For every list of URLs the pipeline returns one record for each URL, in the order of
  the input: the list of records has the length of the input, and the \<^verbatim>\<open>url\<close> fields of
  the records are the input. When the processing of a URL \<open>u\<close> raises, after the URLs
  \<open>pre\<close> and before the URLs \<open>post\<close>, the record for \<open>u\<close> is the empty record with
  \<^verbatim>\<open>status=failed\<close>, the records before it are those of \<open>pre\<close>, and the records after it
  are those of \<open>post\<close>, processed from the state in which the raise left the program.
\<close>

theorem c3_one_record_per_url_in_order:
  "length (fst (start_scraping E urls s)) = length urls
   \<and> map url (fst (start_scraping E urls s)) = urls
   \<and> (fst (scrape_url E u (snd (start_scraping E pre s))) = Raises \<longrightarrow>
        fst (start_scraping E (pre @ u # post) s) =
          fst (start_scraping E pre s) @ make_empty u ''failed''
            # fst (start_scraping E post (snd (scrape_url E u (snd (start_scraping E pre s))))))"
  by (simp add: start_scraping_length start_scraping_urls start_scraping_append
                start_scraping_step del: start_scraping.simps)

text \<open>
  Three URLs; reading the body of the response for the second raises, which no function
  below the loop catches.
\<close>

theorem c3_one_record_per_url_in_order_witness:
  "fst (scrape_url
          \<lparr>requests_get = (\<lambda>u w. (Returns \<lparr>status_code = 200,
               resp_text = (if u = ''https://b.example/'' then Raises
                            else Returns ''<html></html>''),
               was_blocked = None\<rparr>, w)),
           os_sleep = (\<lambda>t w. (Returns (), w)),
           robots_urlopen = (\<lambda>u w. (Read_Raises :: unit robots_response, w)),
           rules_allow = (\<lambda>r a u. Returns True),
           html_parser = (\<lambda>h. Returns (Elem ''[document]'' [] None [])),
           json_loads = (\<lambda>t. JSONDecodeError)\<rparr>
          ''https://b.example/''
          (snd (start_scraping
          \<lparr>requests_get = (\<lambda>u w. (Returns \<lparr>status_code = 200,
               resp_text = (if u = ''https://b.example/'' then Raises
                            else Returns ''<html></html>''),
               was_blocked = None\<rparr>, w)),
           os_sleep = (\<lambda>t w. (Returns (), w)),
           robots_urlopen = (\<lambda>u w. (Read_Raises :: unit robots_response, w)),
           rules_allow = (\<lambda>r a u. Returns True),
           html_parser = (\<lambda>h. Returns (Elem ''[document]'' [] None [])),
           json_loads = (\<lambda>t. JSONDecodeError)\<rparr>
          [''https://a.example/'']
          \<lparr>world = (), robots_cache = Map.empty, trace = []\<rparr>))) = Raises
   \<and> fst (start_scraping
          \<lparr>requests_get = (\<lambda>u w. (Returns \<lparr>status_code = 200,
               resp_text = (if u = ''https://b.example/'' then Raises
                            else Returns ''<html></html>''),
               was_blocked = None\<rparr>, w)),
           os_sleep = (\<lambda>t w. (Returns (), w)),
           robots_urlopen = (\<lambda>u w. (Read_Raises :: unit robots_response, w)),
           rules_allow = (\<lambda>r a u. Returns True),
           html_parser = (\<lambda>h. Returns (Elem ''[document]'' [] None [])),
           json_loads = (\<lambda>t. JSONDecodeError)\<rparr>
          ([''https://a.example/''] @ ''https://b.example/'' # [''https://c.example/''])
          \<lparr>world = (), robots_cache = Map.empty, trace = []\<rparr>)
     = fst (start_scraping
          \<lparr>requests_get = (\<lambda>u w. (Returns \<lparr>status_code = 200,
               resp_text = (if u = ''https://b.example/'' then Raises
                            else Returns ''<html></html>''),
               was_blocked = None\<rparr>, w)),
           os_sleep = (\<lambda>t w. (Returns (), w)),
           robots_urlopen = (\<lambda>u w. (Read_Raises :: unit robots_response, w)),
           rules_allow = (\<lambda>r a u. Returns True),
           html_parser = (\<lambda>h. Returns (Elem ''[document]'' [] None [])),
           json_loads = (\<lambda>t. JSONDecodeError)\<rparr>
          [''https://a.example/'']
          \<lparr>world = (), robots_cache = Map.empty, trace = []\<rparr>)
       @ make_empty ''https://b.example/'' ''failed''
       # fst (start_scraping
          \<lparr>requests_get = (\<lambda>u w. (Returns \<lparr>status_code = 200,
               resp_text = (if u = ''https://b.example/'' then Raises
                            else Returns ''<html></html>''),
               was_blocked = None\<rparr>, w)),
           os_sleep = (\<lambda>t w. (Returns (), w)),
           robots_urlopen = (\<lambda>u w. (Read_Raises :: unit robots_response, w)),
           rules_allow = (\<lambda>r a u. Returns True),
           html_parser = (\<lambda>h. Returns (Elem ''[document]'' [] None [])),
           json_loads = (\<lambda>t. JSONDecodeError)\<rparr>
          [''https://c.example/'']
          (snd (scrape_url
          \<lparr>requests_get = (\<lambda>u w. (Returns \<lparr>status_code = 200,
               resp_text = (if u = ''https://b.example/'' then Raises
                            else Returns ''<html></html>''),
               was_blocked = None\<rparr>, w)),
           os_sleep = (\<lambda>t w. (Returns (), w)),
           robots_urlopen = (\<lambda>u w. (Read_Raises :: unit robots_response, w)),
           rules_allow = (\<lambda>r a u. Returns True),
           html_parser = (\<lambda>h. Returns (Elem ''[document]'' [] None [])),
           json_loads = (\<lambda>t. JSONDecodeError)\<rparr>
          ''https://b.example/''
          (snd (start_scraping
          \<lparr>requests_get = (\<lambda>u w. (Returns \<lparr>status_code = 200,
               resp_text = (if u = ''https://b.example/'' then Raises
                            else Returns ''<html></html>''),
               was_blocked = None\<rparr>, w)),
           os_sleep = (\<lambda>t w. (Returns (), w)),
           robots_urlopen = (\<lambda>u w. (Read_Raises :: unit robots_response, w)),
           rules_allow = (\<lambda>r a u. Returns True),
           html_parser = (\<lambda>h. Returns (Elem ''[document]'' [] None [])),
           json_loads = (\<lambda>t. JSONDecodeError)\<rparr>
          [''https://a.example/'']
          \<lparr>world = (), robots_cache = Map.empty, trace = []\<rparr>)))))
   \<and> map status (fst (start_scraping
          \<lparr>requests_get = (\<lambda>u w. (Returns \<lparr>status_code = 200,
               resp_text = (if u = ''https://b.example/'' then Raises
                            else Returns ''<html></html>''),
               was_blocked = None\<rparr>, w)),
           os_sleep = (\<lambda>t w. (Returns (), w)),
           robots_urlopen = (\<lambda>u w. (Read_Raises :: unit robots_response, w)),
           rules_allow = (\<lambda>r a u. Returns True),
           html_parser = (\<lambda>h. Returns (Elem ''[document]'' [] None [])),
           json_loads = (\<lambda>t. JSONDecodeError)\<rparr>
          ([''https://a.example/''] @ ''https://b.example/'' # [''https://c.example/''])
          \<lparr>world = (), robots_cache = Map.empty, trace = []\<rparr>))
     = [''ok'', ''failed'', ''ok'']"
proof -
  let ?E = "\<lparr>requests_get = (\<lambda>u w. (Returns \<lparr>status_code = 200,
               resp_text = (if u = ''https://b.example/'' then Raises
                            else Returns ''<html></html>''),
               was_blocked = None\<rparr>, w)),
           os_sleep = (\<lambda>t w. (Returns (), w)),
           robots_urlopen = (\<lambda>u w. (Read_Raises :: unit robots_response, w)),
           rules_allow = (\<lambda>r a u. Returns True),
           html_parser = (\<lambda>h. Returns (Elem ''[document]'' [] None [])),
           json_loads = (\<lambda>t. JSONDecodeError)\<rparr> :: (unit, unit) env"
  let ?s = "\<lparr>world = (), robots_cache = (Map.empty :: string \<rightharpoonup> unit robot_file_parser), trace = []\<rparr>"
  have h: "fst (scrape_url ?E ''https://b.example/'' (snd (start_scraping ?E [''https://a.example/''] ?s))) = Raises"
    by code_simp
  have e: "map status (fst (start_scraping ?E ([''https://a.example/''] @ ''https://b.example/'' # [''https://c.example/'']) ?s))
             = [''ok'', ''failed'', ''ok'']"
    by code_simp
  from c3_one_record_per_url_in_order
         [of ?E "[''https://a.example/''] @ ''https://b.example/'' # [''https://c.example/'']" ?s "''https://b.example/''" "[''https://a.example/'']" "[''https://c.example/'']"] h e
  show ?thesis by blast
qed

lemma record_not_ok:
  assumes "status r \<noteq> ''ok''"
      and "r = (case fst (scrape_url E u s) of Raises \<Rightarrow> make_empty u ''failed'' | Returns r \<Rightarrow> r)"
  shows "\<exists>st. r = make_empty u st"
proof (cases "fst (scrape_url E u s)")
  case Raises
  then show ?thesis using assms(2) by auto
next
  case (Returns r')
  then have "r = r'" using assms(2) by simp
  then show ?thesis
    using scrape_url_cases [OF Returns] assms(1) extract_not_ok by blast
qed

lemma start_scraping_not_ok:
  "r \<in> set (fst (start_scraping E urls s)) \<Longrightarrow> status r \<noteq> ''ok'' \<Longrightarrow> \<exists>u st. r = make_empty u st"
proof (induction urls arbitrary: s)
  case Nil
  then show ?case by simp
next
  case (Cons u urls)
  from Cons.prems(1) consider
    "r = (case fst (scrape_url E u s) of Raises \<Rightarrow> make_empty u ''failed'' | Returns r \<Rightarrow> r)"
    | "r \<in> set (fst (start_scraping E urls (snd (scrape_url E u s))))"
    by (auto simp only: start_scraping_step set_ConsD list.set insert_iff)
  then show ?case
  proof cases
    case 1
    then show ?thesis using record_not_ok [OF Cons.prems(2)] by blast
  next
    case 2
    then show ?thesis using Cons.IH Cons.prems(2) by blast
  qed
qed

text \<open>
  C4. In every record that the pipeline returns, and in the record that the extractor
  returns, a status other than \<^verbatim>\<open>ok\<close> comes with no title, no h1, no meta description,
  no rating, no review count, no pricing, and an empty list of CTAs.
\<close>

theorem c4_records_not_ok_have_no_fields:
  "(\<forall>r \<in> set (fst (start_scraping E urls s)). status r \<noteq> ''ok'' \<longrightarrow>
        title r = None \<and> h1 r = None \<and> meta_description r = None \<and> rating r = None
        \<and> review_count r = None \<and> pricing r = None \<and> ctas r = [])
   \<and> (status (extract_structured_data parser loads u html) \<noteq> ''ok'' \<longrightarrow>
        title (extract_structured_data parser loads u html) = None
        \<and> h1 (extract_structured_data parser loads u html) = None
        \<and> meta_description (extract_structured_data parser loads u html) = None
        \<and> rating (extract_structured_data parser loads u html) = None
        \<and> review_count (extract_structured_data parser loads u html) = None
        \<and> pricing (extract_structured_data parser loads u html) = None
        \<and> ctas (extract_structured_data parser loads u html) = [])"
proof (intro conjI ballI impI)
  fix r
  assume "r \<in> set (fst (start_scraping E urls s))" and "status r \<noteq> ''ok''"
  then obtain v st where r: "r = make_empty v st"
    using start_scraping_not_ok by blast
  show "title r = None" "h1 r = None" "meta_description r = None" "rating r = None"
       "review_count r = None" "pricing r = None" "ctas r = []"
    by (simp_all add: r make_empty_fields)
next
  assume "status (extract_structured_data parser loads u html) \<noteq> ''ok''"
  then have e: "extract_structured_data parser loads u html = make_empty u ''failed''"
    by (rule extract_not_ok)
  show "title (extract_structured_data parser loads u html) = None"
       "h1 (extract_structured_data parser loads u html) = None"
       "meta_description (extract_structured_data parser loads u html) = None"
       "rating (extract_structured_data parser loads u html) = None"
       "review_count (extract_structured_data parser loads u html) = None"
       "pricing (extract_structured_data parser loads u html) = None"
       "ctas (extract_structured_data parser loads u html) = []"
    by (simp_all add: e make_empty_fields)
qed

text \<open>A server that answers 404, and a parser that raises.\<close>

theorem c4_records_not_ok_have_no_fields_witness:
  "make_empty ''https://b.example/'' ''failed''
     \<in> set (fst (start_scraping
          \<lparr>requests_get = (\<lambda>u w. (Returns \<lparr>status_code = 404, resp_text = Returns ''Not Found'',
                                           was_blocked = None\<rparr>, w)),
           os_sleep = (\<lambda>t w. (Returns (), w)),
           robots_urlopen = (\<lambda>u w. (Read_Raises :: unit robots_response, w)),
           rules_allow = (\<lambda>r a u. Returns True),
           html_parser = (\<lambda>h. Raises),
           json_loads = (\<lambda>t. JSONDecodeError)\<rparr>
          [''https://b.example/'']
          \<lparr>world = (), robots_cache = Map.empty, trace = []\<rparr>))
   \<and> status (make_empty ''https://b.example/'' ''failed'') \<noteq> ''ok''
   \<and> title (make_empty ''https://b.example/'' ''failed'') = None
   \<and> rating (make_empty ''https://b.example/'' ''failed'') = None
   \<and> ctas (make_empty ''https://b.example/'' ''failed'') = []
   \<and> status (extract_structured_data (\<lambda>h. Raises) (\<lambda>t. JSONDecodeError) ''https://b.example/'' ''<html>'')
       \<noteq> ''ok''
   \<and> title (extract_structured_data (\<lambda>h. Raises) (\<lambda>t. JSONDecodeError) ''https://b.example/'' ''<html>'')
       = None
   \<and> ctas (extract_structured_data (\<lambda>h. Raises) (\<lambda>t. JSONDecodeError) ''https://b.example/'' ''<html>'')
       = []"
proof -
  let ?E = "\<lparr>requests_get = (\<lambda>u w. (Returns \<lparr>status_code = 404, resp_text = Returns ''Not Found'',
                                           was_blocked = None\<rparr>, w)),
           os_sleep = (\<lambda>t w. (Returns (), w)),
           robots_urlopen = (\<lambda>u w. (Read_Raises :: unit robots_response, w)),
           rules_allow = (\<lambda>r a u. Returns True),
           html_parser = (\<lambda>h. Raises),
           json_loads = (\<lambda>t. JSONDecodeError)\<rparr> :: (unit, unit) env"
  let ?s = "\<lparr>world = (), robots_cache = (Map.empty :: string \<rightharpoonup> unit robot_file_parser), trace = []\<rparr>"
  let ?r = "make_empty ''https://b.example/'' ''failed''"
  let ?x = "extract_structured_data (\<lambda>h. Raises) (\<lambda>t. JSONDecodeError) ''https://b.example/'' ''<html>''"
  have m: "?r \<in> set (fst (start_scraping ?E [''https://b.example/''] ?s))"
    by code_simp
  have n: "status ?r \<noteq> ''ok''"
    by code_simp
  have x: "status ?x \<noteq> ''ok''"
    by code_simp
  from c4_records_not_ok_have_no_fields
         [of ?E "[''https://b.example/'']" ?s "\<lambda>h. Raises" "\<lambda>t. JSONDecodeError"
             "''https://b.example/''" "''<html>''"] m n x
  show ?thesis by blast
qed

subsection \<open>The robots.txt gate\<close>

lemma is_allowed_unparsed:
  "get_base_domain u = Raises \<Longrightarrow> is_allowed E u agent s = ((True, []), s)"
  by (simp add: is_allowed_def)

lemma is_allowed_cached:
  "get_base_domain u = Returns base \<Longrightarrow> robots_cache s base = Some p \<Longrightarrow>
   is_allowed E u agent s =
     (if can_fetch E p agent u = Returns False then (False, disallowed_reason agent)
      else (True, []), s)"
  by (auto simp: is_allowed_def get_robot_parser_def split: outcome.splits)

lemma is_allowed_set_url_raises:
  "get_base_domain u = Returns base \<Longrightarrow> robots_cache s base = None \<Longrightarrow>
   urlparse (base @ ''/robots.txt'') [] = Raises \<Longrightarrow>
   is_allowed E u agent s = ((True, []), s)"
  by (simp add: is_allowed_def get_robot_parser_def)

lemma is_allowed_read:
  assumes "get_base_domain u = Returns base" and "robots_cache s base = None"
      and "urlparse (base @ ''/robots.txt'') [] = Returns x"
  shows "fst (is_allowed E u agent s) =
           (case fst (robot_read E (base @ ''/robots.txt'') new_robot_file_parser (world s)) of
              Raises \<Rightarrow> (True, [])
            | Returns p \<Rightarrow>
                if can_fetch E p agent u = Returns False then (False, disallowed_reason agent)
                else (True, []))"
  using assms
  by (auto simp: is_allowed_def get_robot_parser_def Let_def
           split: outcome.splits prod.splits)

lemma robot_read_cases:
  "fst (robot_read E robots_url p w) =
     (case fst (robots_urlopen E robots_url w) of
        HTTP_Error code \<Rightarrow>
          Returns (if code \<in> {401, 403} then p\<lparr>disallow_all := True\<rparr>
                   else if code \<ge> 400 \<and> code < 500 then p\<lparr>allow_all := True\<rparr>
                   else p)
      | Read_Raises \<Rightarrow> Raises
      | Robots_Body rules \<Rightarrow> Returns (p\<lparr>parsed := Some rules\<rparr>))"
  by (simp add: robot_read_def split: prod.splits robots_response.splits)

text \<open>
  C6. The claim: when the robots.txt of the origin cannot be fetched or parsed,
  \<open>is_allowed\<close> answers \<open>True\<close> with the empty reason; when it is fetched and parsed and
  denies the agent the URL, \<open>False\<close> with the reason
  \<^verbatim>\<open>Robots.txt disallowed access for agent '<agent>'\<close>; otherwise \<open>True\<close> with the empty
  reason. \<^verbatim>\<open>RobotFileParser.read\<close> does not raise when the server answers the request for
  the robots.txt with an error status: it catches the \<^verbatim>\<open>HTTPError\<close>, sets \<^verbatim>\<open>disallow_all\<close>
  for the status 401 or 403, and for a status from 500 on sets nothing, so that
  \<^verbatim>\<open>can_fetch\<close> finds no robots.txt read and answers \<open>False\<close>. \<open>_get_robot_parser\<close> caches
  and returns such a parser, and \<open>is_allowed\<close> answers \<open>False\<close> with the reason although
  no robots.txt was fetched. The counterexample asks for a page of a server that answers
  the request for its robots.txt with 403, and of one that answers it with 503.
\<close>

theorem c6_http_error_status_is_not_fail_open:
  "fst (is_allowed
       \<lparr>requests_get = (\<lambda>u w. (Raises, w)),
        os_sleep = (\<lambda>t w. (Returns (), w)),
        robots_urlopen = (\<lambda>u w. (HTTP_Error 403 :: unit robots_response, w)),
        rules_allow = (\<lambda>r a u. Returns True),
        html_parser = (\<lambda>h. Raises),
        json_loads = (\<lambda>t. JSONDecodeError)\<rparr>
       ''https://example.com/private/page'' ''scraper_project/1.0''
       \<lparr>world = (), robots_cache = Map.empty, trace = []\<rparr>)
     = (False, ''Robots.txt disallowed access for agent '' @ [CHR 0x27]
                 @ ''scraper_project/1.0'' @ [CHR 0x27])
   \<and> fst (is_allowed
       \<lparr>requests_get = (\<lambda>u w. (Raises, w)),
        os_sleep = (\<lambda>t w. (Returns (), w)),
        robots_urlopen = (\<lambda>u w. (HTTP_Error 503 :: unit robots_response, w)),
        rules_allow = (\<lambda>r a u. Returns True),
        html_parser = (\<lambda>h. Raises),
        json_loads = (\<lambda>t. JSONDecodeError)\<rparr>
       ''https://example.com/private/page'' ''scraper_project/1.0''
       \<lparr>world = (), robots_cache = Map.empty, trace = []\<rparr>)
     = (False, ''Robots.txt disallowed access for agent '' @ [CHR 0x27]
                 @ ''scraper_project/1.0'' @ [CHR 0x27])
   \<and> map status (fst (start_scraping
       \<lparr>requests_get = (\<lambda>u w. (Raises, w)),
        os_sleep = (\<lambda>t w. (Returns (), w)),
        robots_urlopen = (\<lambda>u w. (HTTP_Error 403 :: unit robots_response, w)),
        rules_allow = (\<lambda>r a u. Returns True),
        html_parser = (\<lambda>h. Raises),
        json_loads = (\<lambda>t. JSONDecodeError)\<rparr>
       [''https://example.com/private/page'']
       \<lparr>world = (), robots_cache = Map.empty, trace = []\<rparr>)) = [''skipped'']"
  by code_simp

text \<open>
  C6, as amended. \<open>is_allowed\<close> for a URL \<open>u\<close> and an agent answers \<open>True\<close> with the empty
  reason when the URL cannot be parsed, and nothing is read. With \<open>base\<close> the origin of the
  URL and no parser cached for it, the answer follows the request for
  \<open>base @ ''/robots.txt''\<close>: \<open>True\<close> with the empty reason when the request, the reading, the
  decoding or the parsing raises anything but an \<^verbatim>\<open>HTTPError\<close>; for an \<^verbatim>\<open>HTTPError\<close> with
  a status from 400 to 499, \<open>False\<close> with the reason
  \<^verbatim>\<open>Robots.txt disallowed access for agent '<agent>'\<close> when the status is 401 or 403 and
  \<open>True\<close> with the empty reason for any other; and when the robots.txt is fetched and
  parsed, \<open>False\<close> with that reason when its rules deny the agent the URL, and \<open>True\<close> with
  the empty reason when they allow it or asking them raises. (When the parser does not
  take the URL of the robots.txt, the answer is \<open>True\<close> with the empty reason.) With a
  parser \<open>p\<close> cached for the origin, nothing is read and the answer is \<open>False\<close> with the
  reason when \<^verbatim>\<open>can_fetch\<close> of \<open>p\<close> returns \<open>False\<close>, and \<open>True\<close> with the empty reason
  otherwise. An \<^verbatim>\<open>HTTPError\<close> with a status outside 400 to 499 is left out.
\<close>

theorem c6_is_allowed_by_robots_answer:
  "(get_base_domain u = Raises \<longrightarrow> is_allowed E u agent s = ((True, []), s))
   \<and> (get_base_domain u = Returns base \<and> robots_cache s base = None \<longrightarrow>
        (case urlparse (base @ ''/robots.txt'') [] of
           Raises \<Rightarrow> fst (is_allowed E u agent s) = (True, [])
         | Returns x \<Rightarrow>
            (case fst (robots_urlopen E (base @ ''/robots.txt'') (world s)) of
               Read_Raises \<Rightarrow> fst (is_allowed E u agent s) = (True, [])
             | HTTP_Error code \<Rightarrow>
                 (400 \<le> code \<and> code < 500 \<longrightarrow>
                    fst (is_allowed E u agent s) =
                      (if code \<in> {401, 403}
                       then (False, ''Robots.txt disallowed access for agent '' @ [CHR 0x27]
                                      @ agent @ [CHR 0x27])
                       else (True, [])))
             | Robots_Body rules \<Rightarrow>
                 fst (is_allowed E u agent s) =
                   (if rules_allow E rules agent u = Returns False
                    then (False, ''Robots.txt disallowed access for agent '' @ [CHR 0x27]
                                   @ agent @ [CHR 0x27])
                    else (True, [])))))
   \<and> (get_base_domain u = Returns base \<and> robots_cache s base = Some p \<longrightarrow>
        is_allowed E u agent s =
          (if can_fetch E p agent u = Returns False
           then (False, ''Robots.txt disallowed access for agent '' @ [CHR 0x27]
                          @ agent @ [CHR 0x27])
           else (True, []), s))"
proof (intro conjI impI)
  assume "get_base_domain u = Raises"
  then show "is_allowed E u agent s = ((True, []), s)"
    by (rule is_allowed_unparsed)
next
  assume a: "get_base_domain u = Returns base \<and> robots_cache s base = None"
  show "case urlparse (base @ ''/robots.txt'') [] of
           Raises \<Rightarrow> fst (is_allowed E u agent s) = (True, [])
         | Returns x \<Rightarrow>
            (case fst (robots_urlopen E (base @ ''/robots.txt'') (world s)) of
               Read_Raises \<Rightarrow> fst (is_allowed E u agent s) = (True, [])
             | HTTP_Error code \<Rightarrow>
                 (400 \<le> code \<and> code < 500 \<longrightarrow>
                    fst (is_allowed E u agent s) =
                      (if code \<in> {401, 403}
                       then (False, ''Robots.txt disallowed access for agent '' @ [CHR 0x27]
                                      @ agent @ [CHR 0x27])
                       else (True, [])))
             | Robots_Body rules \<Rightarrow>
                 fst (is_allowed E u agent s) =
                   (if rules_allow E rules agent u = Returns False
                    then (False, ''Robots.txt disallowed access for agent '' @ [CHR 0x27]
                                   @ agent @ [CHR 0x27])
                    else (True, [])))"
  proof (cases "urlparse (base @ ''/robots.txt'') []")
    case Raises
    then show ?thesis
      using a by (simp add: is_allowed_set_url_raises)
  next
    case (Returns x)
    have "fst (is_allowed E u agent s) =
           (case fst (robot_read E (base @ ''/robots.txt'') new_robot_file_parser (world s)) of
              Raises \<Rightarrow> (True, [])
            | Returns p \<Rightarrow>
                if can_fetch E p agent u = Returns False then (False, disallowed_reason agent)
                else (True, []))"
      using a Returns by (intro is_allowed_read) simp_all
    then show ?thesis
      using Returns
      by (simp add: robot_read_cases can_fetch_def new_robot_file_parser_def
                    disallowed_reason_def
               split: robots_response.splits)
  qed
next
  assume "get_base_domain u = Returns base \<and> robots_cache s base = Some p"
  then show "is_allowed E u agent s =
          (if can_fetch E p agent u = Returns False
           then (False, ''Robots.txt disallowed access for agent '' @ [CHR 0x27]
                          @ agent @ [CHR 0x27])
           else (True, []), s)"
    by (simp add: is_allowed_cached disallowed_reason_def)
qed

text \<open>
  One URL that cannot be parsed; five origins with nothing cached: the request for the
  robots.txt raises, is answered with 403, is answered with 404, gives rules that deny,
  gives rules that allow; and an origin with a cached parser whose rules deny.
\<close>

theorem c6_is_allowed_by_robots_answer_witness:
  "is_allowed
       \<lparr>requests_get = (\<lambda>u w. (Raises, w)),
        os_sleep = (\<lambda>t w. (Returns (), w)),
        robots_urlopen = (\<lambda>u w.
          (if u = ''https://down.example/robots.txt'' then Read_Raises
           else if u = ''https://private.example/robots.txt'' then HTTP_Error 403
           else if u = ''https://bare.example/robots.txt'' then HTTP_Error 404
           else if u = ''https://deny.example/robots.txt'' then Robots_Body False
           else Robots_Body True, w)),
        rules_allow = (\<lambda>r a u. Returns r),
        html_parser = (\<lambda>h. Raises),
        json_loads = (\<lambda>t. JSONDecodeError)\<rparr>
       ''https://[bad]/page'' ''scraper_project/1.0''
       \<lparr>world = (), robots_cache = Map.empty, trace = []\<rparr>
     = ((True, []), \<lparr>world = (), robots_cache = Map.empty, trace = []\<rparr>)
   \<and> fst (is_allowed
       \<lparr>requests_get = (\<lambda>u w. (Raises, w)),
        os_sleep = (\<lambda>t w. (Returns (), w)),
        robots_urlopen = (\<lambda>u w.
          (if u = ''https://down.example/robots.txt'' then Read_Raises
           else if u = ''https://private.example/robots.txt'' then HTTP_Error 403
           else if u = ''https://bare.example/robots.txt'' then HTTP_Error 404
           else if u = ''https://deny.example/robots.txt'' then Robots_Body False
           else Robots_Body True, w)),
        rules_allow = (\<lambda>r a u. Returns r),
        html_parser = (\<lambda>h. Raises),
        json_loads = (\<lambda>t. JSONDecodeError)\<rparr>
       ''https://down.example/page'' ''scraper_project/1.0''
       \<lparr>world = (), robots_cache = Map.empty, trace = []\<rparr>)
     = (True, [])
   \<and> fst (is_allowed
       \<lparr>requests_get = (\<lambda>u w. (Raises, w)),
        os_sleep = (\<lambda>t w. (Returns (), w)),
        robots_urlopen = (\<lambda>u w.
          (if u = ''https://down.example/robots.txt'' then Read_Raises
           else if u = ''https://private.example/robots.txt'' then HTTP_Error 403
           else if u = ''https://bare.example/robots.txt'' then HTTP_Error 404
           else if u = ''https://deny.example/robots.txt'' then Robots_Body False
           else Robots_Body True, w)),
        rules_allow = (\<lambda>r a u. Returns r),
        html_parser = (\<lambda>h. Raises),
        json_loads = (\<lambda>t. JSONDecodeError)\<rparr>
       ''https://private.example/page'' ''scraper_project/1.0''
       \<lparr>world = (), robots_cache = Map.empty, trace = []\<rparr>)
     = (False, ''Robots.txt disallowed access for agent '' @ [CHR 0x27] @ ''scraper_project/1.0'' @ [CHR 0x27])
   \<and> fst (is_allowed
       \<lparr>requests_get = (\<lambda>u w. (Raises, w)),
        os_sleep = (\<lambda>t w. (Returns (), w)),
        robots_urlopen = (\<lambda>u w.
          (if u = ''https://down.example/robots.txt'' then Read_Raises
           else if u = ''https://private.example/robots.txt'' then HTTP_Error 403
           else if u = ''https://bare.example/robots.txt'' then HTTP_Error 404
           else if u = ''https://deny.example/robots.txt'' then Robots_Body False
           else Robots_Body True, w)),
        rules_allow = (\<lambda>r a u. Returns r),
        html_parser = (\<lambda>h. Raises),
        json_loads = (\<lambda>t. JSONDecodeError)\<rparr>
       ''https://bare.example/page'' ''scraper_project/1.0''
       \<lparr>world = (), robots_cache = Map.empty, trace = []\<rparr>)
     = (True, [])
   \<and> fst (is_allowed
       \<lparr>requests_get = (\<lambda>u w. (Raises, w)),
        os_sleep = (\<lambda>t w. (Returns (), w)),
        robots_urlopen = (\<lambda>u w.
          (if u = ''https://down.example/robots.txt'' then Read_Raises
           else if u = ''https://private.example/robots.txt'' then HTTP_Error 403
           else if u = ''https://bare.example/robots.txt'' then HTTP_Error 404
           else if u = ''https://deny.example/robots.txt'' then Robots_Body False
           else Robots_Body True, w)),
        rules_allow = (\<lambda>r a u. Returns r),
        html_parser = (\<lambda>h. Raises),
        json_loads = (\<lambda>t. JSONDecodeError)\<rparr>
       ''https://deny.example/page'' ''scraper_project/1.0''
       \<lparr>world = (), robots_cache = Map.empty, trace = []\<rparr>)
     = (False, ''Robots.txt disallowed access for agent '' @ [CHR 0x27] @ ''scraper_project/1.0'' @ [CHR 0x27])
   \<and> fst (is_allowed
       \<lparr>requests_get = (\<lambda>u w. (Raises, w)),
        os_sleep = (\<lambda>t w. (Returns (), w)),
        robots_urlopen = (\<lambda>u w.
          (if u = ''https://down.example/robots.txt'' then Read_Raises
           else if u = ''https://private.example/robots.txt'' then HTTP_Error 403
           else if u = ''https://bare.example/robots.txt'' then HTTP_Error 404
           else if u = ''https://deny.example/robots.txt'' then Robots_Body False
           else Robots_Body True, w)),
        rules_allow = (\<lambda>r a u. Returns r),
        html_parser = (\<lambda>h. Raises),
        json_loads = (\<lambda>t. JSONDecodeError)\<rparr>
       ''https://open.example/page'' ''scraper_project/1.0''
       \<lparr>world = (), robots_cache = Map.empty, trace = []\<rparr>)
     = (True, [])
   \<and> is_allowed
       \<lparr>requests_get = (\<lambda>u w. (Raises, w)),
        os_sleep = (\<lambda>t w. (Returns (), w)),
        robots_urlopen = (\<lambda>u w.
          (if u = ''https://down.example/robots.txt'' then Read_Raises
           else if u = ''https://private.example/robots.txt'' then HTTP_Error 403
           else if u = ''https://bare.example/robots.txt'' then HTTP_Error 404
           else if u = ''https://deny.example/robots.txt'' then Robots_Body False
           else Robots_Body True, w)),
        rules_allow = (\<lambda>r a u. Returns r),
        html_parser = (\<lambda>h. Raises),
        json_loads = (\<lambda>t. JSONDecodeError)\<rparr>
       ''https://cached.example/page'' ''scraper_project/1.0''
       \<lparr>world = (),
        robots_cache = [''https://cached.example'' \<mapsto>
                          \<lparr>disallow_all = False, allow_all = False, parsed = Some False\<rparr>],
        trace = []\<rparr>
     = ((False, ''Robots.txt disallowed access for agent '' @ [CHR 0x27] @ ''scraper_project/1.0'' @ [CHR 0x27]),
       \<lparr>world = (),
        robots_cache = [''https://cached.example'' \<mapsto>
                          \<lparr>disallow_all = False, allow_all = False, parsed = Some False\<rparr>],
        trace = []\<rparr>)"
proof -
  let ?E = "\<lparr>requests_get = (\<lambda>u w. (Raises, w)),
        os_sleep = (\<lambda>t w. (Returns (), w)),
        robots_urlopen = (\<lambda>u w.
          (if u = ''https://down.example/robots.txt'' then Read_Raises
           else if u = ''https://private.example/robots.txt'' then HTTP_Error 403
           else if u = ''https://bare.example/robots.txt'' then HTTP_Error 404
           else if u = ''https://deny.example/robots.txt'' then Robots_Body False
           else Robots_Body True, w)),
        rules_allow = (\<lambda>r a u. Returns r),
        html_parser = (\<lambda>h. Raises),
        json_loads = (\<lambda>t. JSONDecodeError)\<rparr> :: (unit, bool) env"
  let ?s = "\<lparr>world = (), robots_cache = Map.empty, trace = []\<rparr> :: (unit, bool robot_file_parser) state"
  let ?p = "\<lparr>disallow_all = False, allow_all = False, parsed = Some False\<rparr>"
  let ?sc = "\<lparr>world = (),
        robots_cache = [''https://cached.example'' \<mapsto>
                          \<lparr>disallow_all = False, allow_all = False, parsed = Some False\<rparr>],
        trace = []\<rparr>"
  have r: "get_base_domain ''https://[bad]/page'' = Raises"
    by code_simp
  have 0: "is_allowed ?E ''https://[bad]/page'' ''scraper_project/1.0'' ?s = ((True, []), ?s)"
    using c6_is_allowed_by_robots_answer
            [where u = "''https://[bad]/page''" and E = ?E and s = ?s
               and agent = "''scraper_project/1.0''"] r
    by simp
  have b1: "get_base_domain ''https://down.example/page'' = Returns ''https://down.example''"
    by code_simp
  have n1: "urlparse (''https://down.example'' @ ''/robots.txt'') [] \<noteq> Raises"
    by code_simp
  then obtain x1 where p1: "urlparse (''https://down.example'' @ ''/robots.txt'') [] = Returns x1"
    by (cases "urlparse (''https://down.example'' @ ''/robots.txt'') []") auto
  have 1: "fst (is_allowed ?E ''https://down.example/page'' ''scraper_project/1.0'' ?s) = (True, [])"
    using c6_is_allowed_by_robots_answer
            [where u = "''https://down.example/page''" and base = "''https://down.example''"
               and E = ?E and s = ?s and agent = "''scraper_project/1.0''"] b1 p1
    by simp
  have b2: "get_base_domain ''https://private.example/page'' = Returns ''https://private.example''"
    by code_simp
  have n2: "urlparse (''https://private.example'' @ ''/robots.txt'') [] \<noteq> Raises"
    by code_simp
  then obtain x2 where p2: "urlparse (''https://private.example'' @ ''/robots.txt'') [] = Returns x2"
    by (cases "urlparse (''https://private.example'' @ ''/robots.txt'') []") auto
  have 2: "fst (is_allowed ?E ''https://private.example/page'' ''scraper_project/1.0'' ?s) = (False, ''Robots.txt disallowed access for agent '' @ [CHR 0x27] @ ''scraper_project/1.0'' @ [CHR 0x27])"
    using c6_is_allowed_by_robots_answer
            [where u = "''https://private.example/page''" and base = "''https://private.example''"
               and E = ?E and s = ?s and agent = "''scraper_project/1.0''"] b2 p2
    by simp
  have b3: "get_base_domain ''https://bare.example/page'' = Returns ''https://bare.example''"
    by code_simp
  have n3: "urlparse (''https://bare.example'' @ ''/robots.txt'') [] \<noteq> Raises"
    by code_simp
  then obtain x3 where p3: "urlparse (''https://bare.example'' @ ''/robots.txt'') [] = Returns x3"
    by (cases "urlparse (''https://bare.example'' @ ''/robots.txt'') []") auto
  have 3: "fst (is_allowed ?E ''https://bare.example/page'' ''scraper_project/1.0'' ?s) = (True, [])"
    using c6_is_allowed_by_robots_answer
            [where u = "''https://bare.example/page''" and base = "''https://bare.example''"
               and E = ?E and s = ?s and agent = "''scraper_project/1.0''"] b3 p3
    by simp
  have b4: "get_base_domain ''https://deny.example/page'' = Returns ''https://deny.example''"
    by code_simp
  have n4: "urlparse (''https://deny.example'' @ ''/robots.txt'') [] \<noteq> Raises"
    by code_simp
  then obtain x4 where p4: "urlparse (''https://deny.example'' @ ''/robots.txt'') [] = Returns x4"
    by (cases "urlparse (''https://deny.example'' @ ''/robots.txt'') []") auto
  have 4: "fst (is_allowed ?E ''https://deny.example/page'' ''scraper_project/1.0'' ?s) = (False, ''Robots.txt disallowed access for agent '' @ [CHR 0x27] @ ''scraper_project/1.0'' @ [CHR 0x27])"
    using c6_is_allowed_by_robots_answer
            [where u = "''https://deny.example/page''" and base = "''https://deny.example''"
               and E = ?E and s = ?s and agent = "''scraper_project/1.0''"] b4 p4
    by simp
  have b5: "get_base_domain ''https://open.example/page'' = Returns ''https://open.example''"
    by code_simp
  have n5: "urlparse (''https://open.example'' @ ''/robots.txt'') [] \<noteq> Raises"
    by code_simp
  then obtain x5 where p5: "urlparse (''https://open.example'' @ ''/robots.txt'') [] = Returns x5"
    by (cases "urlparse (''https://open.example'' @ ''/robots.txt'') []") auto
  have 5: "fst (is_allowed ?E ''https://open.example/page'' ''scraper_project/1.0'' ?s) = (True, [])"
    using c6_is_allowed_by_robots_answer
            [where u = "''https://open.example/page''" and base = "''https://open.example''"
               and E = ?E and s = ?s and agent = "''scraper_project/1.0''"] b5 p5
    by simp
  have b6: "get_base_domain ''https://cached.example/page'' = Returns ''https://cached.example''"
    by code_simp
  have c6: "can_fetch ?E ?p ''scraper_project/1.0'' ''https://cached.example/page'' = Returns False"
    by (simp add: can_fetch_def)
  have 6: "is_allowed ?E ''https://cached.example/page'' ''scraper_project/1.0'' ?sc
             = ((False, ''Robots.txt disallowed access for agent '' @ [CHR 0x27] @ ''scraper_project/1.0'' @ [CHR 0x27]), ?sc)"
    using c6_is_allowed_by_robots_answer
            [where u = "''https://cached.example/page''" and base = "''https://cached.example''"
               and E = ?E and s = ?sc and p = ?p and agent = "''scraper_project/1.0''"] b6 c6
    by simp
  from 0 1 2 3 4 5 6 show ?thesis by blast
qed

subsection \<open>Ratings\<close>

lemma class_scan_skip:
  "\<forall>x\<in>set before. \<not> list_ex (\<lambda>k. str_contains k (combined x)) keys \<Longrightarrow>
   class_scan keys mtype (before @ rest) = class_scan keys mtype rest"
  by (induction before) simp_all

lemma class_scan_none:
  "\<forall>x\<in>set es. \<not> list_ex (\<lambda>k. str_contains k (combined x)) keys \<Longrightarrow>
   class_scan keys mtype es = None"
  using class_scan_skip [of es keys mtype "[]"] by simp

lemma get_metric_rating_unmarked:
  assumes "soup_find (attr_is ''itemprop'' ''ratingValue'') soup = None"
      and "soup_find (attr_sat ''aria-label'' (\<lambda>x. str_contains ''rating'' (str_lower x))) soup = None"
  shows "get_metric soup ''rating'' =
           class_scan [''rating'', ''stars'', ''score''] ''rating''
             (soup_find_all (\<lambda>e. get_class e \<noteq> None) soup)"
  using assms by (simp add: get_metric_def Let_def)

lemma read_json_data_skip:
  "\<forall>obj\<in>set before. \<forall>v. walk_path obj keys = Some v \<longrightarrow> scalar_str v = None \<Longrightarrow>
   read_json_data (before @ rest) keys = read_json_data rest keys"
  by (induction before) (auto split: option.splits)

lemma read_json_data_first:
  assumes "\<forall>obj\<in>set before. \<forall>v. walk_path obj keys = Some v \<longrightarrow> scalar_str v = None"
      and "walk_path obj keys = Some v" and "scalar_str v = Some x"
  shows "read_json_data (before @ obj # after) keys = Some x"
  using assms by (simp add: read_json_data_skip)

lemma extract_rating:
  assumes "parser html = Returns soup"
  shows "rating (extract_structured_data parser loads u html) =
           (case get_metric soup ''rating'' of
              None \<Rightarrow> read_json_data (get_json_ld loads soup) [''aggregateRating'', ''ratingValue'']
            | Some x \<Rightarrow> Some x)"
  using assms by (simp add: extract_structured_data_def Let_def split: option.splits)

text \<open>
  C7. The claim: on a page with no rating marker in the DOM and with a JSON-LD object whose
  \<^verbatim>\<open>aggregateRating.ratingValue\<close> is \<^verbatim>\<open>"4.5"\<close>, the rating of the record is \<^verbatim>\<open>"4.5"\<close>.
  \<open>read_json_data\<close> returns the value of the first object that has a string or a number
  at that path. The counterexample is a page whose JSON-LD block is an array of two
  objects, the first rated 3.9 and the second 4.5: the DOM has no rating marker, the
  object rated 4.5 is among the collected objects, and the rating of the record is 3.9.
\<close>

theorem c7_first_scalar_rating_wins:
  \<open>soup_find (attr_is ''itemprop'' ''ratingValue'')
     (Elem ''[document]'' [] None
        [Elem ''html'' [] None
           [Elem ''head'' [] None
              [Elem ''script'' [(''type'', ''application/ld+json'')] None
                 [Text Script ''[{"aggregateRating": {"ratingValue": "3.9"}}, {"aggregateRating": {"ratingValue": "4.5"}}]'']],
            Elem ''body'' [] None [Elem ''h1'' [] None [Text NavigableString ''Widget'']]]]) = None
   \<and> soup_find (attr_sat ''aria-label'' (\<lambda>x. str_contains ''rating'' (str_lower x)))
     (Elem ''[document]'' [] None
        [Elem ''html'' [] None
           [Elem ''head'' [] None
              [Elem ''script'' [(''type'', ''application/ld+json'')] None
                 [Text Script ''[{"aggregateRating": {"ratingValue": "3.9"}}, {"aggregateRating": {"ratingValue": "4.5"}}]'']],
            Elem ''body'' [] None [Elem ''h1'' [] None [Text NavigableString ''Widget'']]]]) = None
   \<and> filter (\<lambda>e. list_ex (\<lambda>k. str_contains k (combined e)) [''rating'', ''stars'', ''score''])
       (soup_find_all (\<lambda>e. get_class e \<noteq> None)
     (Elem ''[document]'' [] None
        [Elem ''html'' [] None
           [Elem ''head'' [] None
              [Elem ''script'' [(''type'', ''application/ld+json'')] None
                 [Text Script ''[{"aggregateRating": {"ratingValue": "3.9"}}, {"aggregateRating": {"ratingValue": "4.5"}}]'']],
            Elem ''body'' [] None [Elem ''h1'' [] None [Text NavigableString ''Widget'']]]])) = []
   \<and> JDict [(''aggregateRating'', JDict [(''ratingValue'', JStr ''4.5'')])]
       \<in> set (get_json_ld
         (\<lambda>t. if t = ''[{"aggregateRating": {"ratingValue": "3.9"}}, {"aggregateRating": {"ratingValue": "4.5"}}]''
            then Loaded (JList [JDict [(''aggregateRating'', JDict [(''ratingValue'', JStr ''3.9'')])],
                              JDict [(''aggregateRating'', JDict [(''ratingValue'', JStr ''4.5'')])]])
            else JSONDecodeError)
     (Elem ''[document]'' [] None
        [Elem ''html'' [] None
           [Elem ''head'' [] None
              [Elem ''script'' [(''type'', ''application/ld+json'')] None
                 [Text Script ''[{"aggregateRating": {"ratingValue": "3.9"}}, {"aggregateRating": {"ratingValue": "4.5"}}]'']],
            Elem ''body'' [] None [Elem ''h1'' [] None [Text NavigableString ''Widget'']]]]))
   \<and> walk_path (JDict [(''aggregateRating'', JDict [(''ratingValue'', JStr ''4.5'')])]) [''aggregateRating'', ''ratingValue''] = Some (JStr ''4.5'')
   \<and> rating (extract_structured_data
         (\<lambda>h. Returns
     (Elem ''[document]'' [] None
        [Elem ''html'' [] None
           [Elem ''head'' [] None
              [Elem ''script'' [(''type'', ''application/ld+json'')] None
                 [Text Script ''[{"aggregateRating": {"ratingValue": "3.9"}}, {"aggregateRating": {"ratingValue": "4.5"}}]'']],
            Elem ''body'' [] None [Elem ''h1'' [] None [Text NavigableString ''Widget'']]]]))
         (\<lambda>t. if t = ''[{"aggregateRating": {"ratingValue": "3.9"}}, {"aggregateRating": {"ratingValue": "4.5"}}]''
            then Loaded (JList [JDict [(''aggregateRating'', JDict [(''ratingValue'', JStr ''3.9'')])],
                              JDict [(''aggregateRating'', JDict [(''ratingValue'', JStr ''4.5'')])]])
            else JSONDecodeError)
         ''https://example.com/widget'' ''<html>'') = Some ''3.9''\<close>
  by code_simp

text \<open>
  C7, as amended: when the DOM has no rating marker (no element with
  \<^verbatim>\<open>itemprop="ratingValue"\<close>, no \<^verbatim>\<open>aria-label\<close> containing \<^verbatim>\<open>rating\<close> in any letter case,
  no element whose class list contains \<^verbatim>\<open>rating\<close>, \<^verbatim>\<open>stars\<close> or \<^verbatim>\<open>score\<close>), the collected
  JSON-LD objects contain an object whose \<^verbatim>\<open>aggregateRating.ratingValue\<close> is \<^verbatim>\<open>"4.5"\<close>, and
  no object collected before it has a string or a number at that path, the rating of the
  record is \<^verbatim>\<open>"4.5"\<close>.
\<close>

theorem c7_json_ld_rating_when_dom_unmarked:
  assumes "parser html = Returns soup"
      and "soup_find (attr_is ''itemprop'' ''ratingValue'') soup = None"
      and "soup_find (attr_sat ''aria-label'' (\<lambda>x. str_contains ''rating'' (str_lower x))) soup = None"
      and "\<forall>e\<in>set (soup_find_all (\<lambda>e. get_class e \<noteq> None) soup).
             \<not> list_ex (\<lambda>k. str_contains k (combined e)) [''rating'', ''stars'', ''score'']"
      and "get_json_ld loads soup = before @ obj # after"
      and "\<forall>x\<in>set before. \<forall>v. walk_path x [''aggregateRating'', ''ratingValue''] = Some v
             \<longrightarrow> scalar_str v = None"
      and "walk_path obj [''aggregateRating'', ''ratingValue''] = Some (JStr ''4.5'')"
  shows "rating (extract_structured_data parser loads u html) = Some ''4.5''"
proof -
  have "get_metric soup ''rating'' = None"
    using assms(2,3,4) by (simp add: get_metric_rating_unmarked class_scan_none)
  moreover have "read_json_data (get_json_ld loads soup) [''aggregateRating'', ''ratingValue'']
                   = Some ''4.5''"
    using assms(5,6,7) read_json_data_first [of before _ obj "JStr ''4.5''" "''4.5''" after]
    by simp
  ultimately show ?thesis
    using assms(1) by (simp add: extract_rating)
qed

text \<open>A page with one JSON-LD block, a single object rated 4.5.\<close>

theorem c7_json_ld_rating_when_dom_unmarked_witness:
  \<open>get_json_ld
         (\<lambda>t. if t = ''{"@type": "Product", "aggregateRating": {"ratingValue": "4.5"}}''
            then Loaded (JDict [(''@type'', JStr ''Product''), (''aggregateRating'', JDict [(''ratingValue'', JStr ''4.5'')])])
            else JSONDecodeError)
     (Elem ''[document]'' [] None
        [Elem ''html'' [] None
           [Elem ''head'' [] None
              [Elem ''script'' [(''type'', ''application/ld+json'')] None
                 [Text Script ''{"@type": "Product", "aggregateRating": {"ratingValue": "4.5"}}'']],
            Elem ''body'' [] None [Elem ''h1'' [] None [Text NavigableString ''Widget'']]]])
     = [] @ JDict [(''@type'', JStr ''Product''), (''aggregateRating'', JDict [(''ratingValue'', JStr ''4.5'')])] # []
   \<and> rating (extract_structured_data
         (\<lambda>h. Returns
     (Elem ''[document]'' [] None
        [Elem ''html'' [] None
           [Elem ''head'' [] None
              [Elem ''script'' [(''type'', ''application/ld+json'')] None
                 [Text Script ''{"@type": "Product", "aggregateRating": {"ratingValue": "4.5"}}'']],
            Elem ''body'' [] None [Elem ''h1'' [] None [Text NavigableString ''Widget'']]]]))
         (\<lambda>t. if t = ''{"@type": "Product", "aggregateRating": {"ratingValue": "4.5"}}''
            then Loaded (JDict [(''@type'', JStr ''Product''), (''aggregateRating'', JDict [(''ratingValue'', JStr ''4.5'')])])
            else JSONDecodeError)
         ''https://example.com/widget'' ''<html>'') = Some ''4.5''\<close>
proof -
  let ?soup = \<open>(Elem ''[document]'' [] None
        [Elem ''html'' [] None
           [Elem ''head'' [] None
              [Elem ''script'' [(''type'', ''application/ld+json'')] None
                 [Text Script ''{"@type": "Product", "aggregateRating": {"ratingValue": "4.5"}}'']],
            Elem ''body'' [] None [Elem ''h1'' [] None [Text NavigableString ''Widget'']]]])\<close>
  let ?loads = \<open>(\<lambda>t. if t = ''{"@type": "Product", "aggregateRating": {"ratingValue": "4.5"}}''
            then Loaded (JDict [(''@type'', JStr ''Product''), (''aggregateRating'', JDict [(''ratingValue'', JStr ''4.5'')])])
            else JSONDecodeError)\<close>
  let ?obj = \<open>JDict [(''@type'', JStr ''Product''), (''aggregateRating'', JDict [(''ratingValue'', JStr ''4.5'')])]\<close>
  have h2: "soup_find (attr_is ''itemprop'' ''ratingValue'') ?soup = None"
    by code_simp
  have h3: "soup_find (attr_sat ''aria-label'' (\<lambda>x. str_contains ''rating'' (str_lower x))) ?soup
              = None"
    by code_simp
  have h4: "\<forall>e\<in>set (soup_find_all (\<lambda>e. get_class e \<noteq> None) ?soup).
              \<not> list_ex (\<lambda>k. str_contains k (combined e)) [''rating'', ''stars'', ''score'']"
    by code_simp
  have h5: "get_json_ld ?loads ?soup = [] @ ?obj # []"
    by code_simp
  have h6: "\<forall>x\<in>set []. \<forall>v. walk_path x [''aggregateRating'', ''ratingValue''] = Some v
              \<longrightarrow> scalar_str v = None"
    by simp
  have h7: "walk_path ?obj [''aggregateRating'', ''ratingValue''] = Some (JStr ''4.5'')"
    by code_simp
  have "rating (extract_structured_data (\<lambda>h. Returns ?soup) ?loads
                  ''https://example.com/widget'' ''<html>'') = Some ''4.5''"
    using c7_json_ld_rating_when_dom_unmarked
            [where parser = "\<lambda>h. Returns ?soup" and html = "''<html>''" and soup = ?soup
               and loads = ?loads and u = "''https://example.com/widget''"
               and before = "[]" and obj = ?obj and after = "[]"]
          h2 h3 h4 h5 h6 h7
    by simp
  with h5 show ?thesis by blast
qed

lemma star_rating_three:
  "str_capitalize (str_strip (str_replace ''star-rating'' []
      (str_lower (str_join '' '' [''star-rating'', ''Three''])))) = ''Three''"
  by code_simp

lemma star_rating_has_key:
  "list_ex (\<lambda>k. str_contains k (str_lower (str_join '' '' [''star-rating'', ''Three''])))
     [''rating'', ''stars'', ''score'']"
  by code_simp

text \<open>
  C8. When no element has \<^verbatim>\<open>itemprop="ratingValue"\<close>, no \<^verbatim>\<open>aria-label\<close> contains
  \<^verbatim>\<open>rating\<close>, and the first element whose class list contains \<^verbatim>\<open>rating\<close>, \<^verbatim>\<open>stars\<close> or
  \<^verbatim>\<open>score\<close> has the class tokens \<^verbatim>\<open>star-rating\<close> and \<^verbatim>\<open>Three\<close> and no text, the rating of
  the record is \<^verbatim>\<open>Three\<close>.
\<close>

theorem c8_class_only_star_rating:
  assumes "parser html = Returns soup"
      and "soup_find (attr_is ''itemprop'' ''ratingValue'') soup = None"
      and "soup_find (attr_sat ''aria-label'' (\<lambda>x. str_contains ''rating'' (str_lower x))) soup = None"
      and "soup_find_all (\<lambda>e. get_class e \<noteq> None) soup = before @ e # after"
      and "\<forall>x\<in>set before.
             \<not> list_ex (\<lambda>k. str_contains k (combined x)) [''rating'', ''stars'', ''score'']"
      and "get_class e = Some (Multi [''star-rating'', ''Three''])"
      and "get_text_clean (Some e) = []"
  shows "rating (extract_structured_data parser loads u html) = Some ''Three''"
proof -
  have c: "combined e = str_lower (str_join '' '' [''star-rating'', ''Three''])"
    using assms(6) by (simp add: combined_def cls_list_def)
  have "class_scan [''rating'', ''stars'', ''score''] ''rating'' (e # after) = Some ''Three''"
    using assms(7) star_rating_has_key star_rating_three
    by (simp only: class_scan.simps c Let_def) simp
  then have "get_metric soup ''rating'' = Some ''Three''"
    using assms(2,3,4,5) by (simp add: get_metric_rating_unmarked class_scan_skip)
  then show ?thesis
    using assms(1) by (simp add: extract_rating)
qed

text \<open>A product card in the style of books.toscrape.com.\<close>

theorem c8_class_only_star_rating_witness:
  "soup_find_all (\<lambda>e. get_class e \<noteq> None)
     (Elem ''[document]'' [] None
        [Elem ''article'' [] (Some (Multi [''product_pod''])) 
           [Elem ''p'' [] (Some (Multi [''star-rating'', ''Three'']))
              [Elem ''i'' [] (Some (Multi [''icon-star''])) []],
            Elem ''h3'' [] None [Text NavigableString ''A Light in the Attic'']]])
     = [Elem ''article'' [] (Some (Multi [''product_pod'']))
           [Elem ''p'' [] (Some (Multi [''star-rating'', ''Three'']))
              [Elem ''i'' [] (Some (Multi [''icon-star''])) []],
            Elem ''h3'' [] None [Text NavigableString ''A Light in the Attic'']]]
       @ Elem ''p'' [] (Some (Multi [''star-rating'', ''Three'']))
              [Elem ''i'' [] (Some (Multi [''icon-star''])) []]
       # [Elem ''i'' [] (Some (Multi [''icon-star''])) []]
   \<and> rating (extract_structured_data
         (\<lambda>h. Returns
     (Elem ''[document]'' [] None
        [Elem ''article'' [] (Some (Multi [''product_pod''])) 
           [Elem ''p'' [] (Some (Multi [''star-rating'', ''Three'']))
              [Elem ''i'' [] (Some (Multi [''icon-star''])) []],
            Elem ''h3'' [] None [Text NavigableString ''A Light in the Attic'']]]))
         (\<lambda>t. JSONDecodeError) ''https://books.example/'' ''<html>'') = Some ''Three''"
proof -
  let ?soup = "(Elem ''[document]'' [] None
        [Elem ''article'' [] (Some (Multi [''product_pod''])) 
           [Elem ''p'' [] (Some (Multi [''star-rating'', ''Three'']))
              [Elem ''i'' [] (Some (Multi [''icon-star''])) []],
            Elem ''h3'' [] None [Text NavigableString ''A Light in the Attic'']]])"
  let ?e = "Elem ''p'' [] (Some (Multi [''star-rating'', ''Three'']))
              [Elem ''i'' [] (Some (Multi [''icon-star''])) []]"
  let ?before = "[Elem ''article'' [] (Some (Multi [''product_pod'']))
           [Elem ''p'' [] (Some (Multi [''star-rating'', ''Three'']))
              [Elem ''i'' [] (Some (Multi [''icon-star''])) []],
            Elem ''h3'' [] None [Text NavigableString ''A Light in the Attic'']]]"
  let ?after = "[Elem ''i'' [] (Some (Multi [''icon-star''])) []]"
  have h2: "soup_find (attr_is ''itemprop'' ''ratingValue'') ?soup = None"
    by code_simp
  have h3: "soup_find (attr_sat ''aria-label'' (\<lambda>x. str_contains ''rating'' (str_lower x))) ?soup
              = None"
    by code_simp
  have h4: "soup_find_all (\<lambda>e. get_class e \<noteq> None) ?soup = ?before @ ?e # ?after"
    by code_simp
  have h5: "\<forall>x\<in>set ?before.
              \<not> list_ex (\<lambda>k. str_contains k (combined x)) [''rating'', ''stars'', ''score'']"
    by code_simp
  have h6: "get_class ?e = Some (Multi [''star-rating'', ''Three''])"
    by simp
  have h7: "get_text_clean (Some ?e) = []"
    by code_simp
  have "rating (extract_structured_data (\<lambda>h. Returns ?soup) (\<lambda>t. JSONDecodeError)
                  ''https://books.example/'' ''<html>'') = Some ''Three''"
    using c8_class_only_star_rating
            [where parser = "\<lambda>h. Returns ?soup" and html = "''<html>''" and soup = ?soup
               and loads = "\<lambda>t. JSONDecodeError" and u = "''https://books.example/''"
               and before = ?before and e = ?e and after = ?after]
          h2 h3 h4 h5 h6 h7
    by simp
  with h4 show ?thesis by blast
qed

subsection \<open>Call-to-action links\<close>

lemma btns_scan_mem:
  "\<forall>x\<in>set before. btn_entry u x \<noteq> Raises \<Longrightarrow> btn_entry u e = Returns (Some c) \<Longrightarrow>
   c \<in> set (btns_scan u (before @ e # after))"
proof (induction before)
  case Nil
  then show ?case by simp
next
  case (Cons a before)
  then have ih: "c \<in> set (btns_scan u (before @ e # after))" by simp
  from Cons.prems(1) obtain r where "btn_entry u a = Returns r"
    by (cases "btn_entry u a") auto
  then show ?case
    using ih by (cases r) simp_all
qed

lemma btns_scan_from:
  "c \<in> set (btns_scan u es) \<Longrightarrow> \<exists>e\<in>set es. btn_entry u e = Returns (Some c)"
  by (induction es) (auto split: outcome.splits option.splits)

lemma btn_entry_text: "btn_entry u e = Returns (Some c) \<Longrightarrow> cta_text c \<noteq> []"
  by (auto simp: btn_entry_def Let_def split: if_splits outcome.splits)

lemma btn_entry_href:
  "btn_entry u e = Returns (Some c) \<Longrightarrow> node_name e \<noteq> ''a'' \<Longrightarrow> cta_href c = []"
  by (auto simp: btn_entry_def Let_def split: if_splits outcome.splits)

lemma join_resolved: "urljoin ''https://example.com/x'' ''/join'' = Returns ''https://example.com/join''"
  by code_simp

lemma join_stripped: "str_strip ''/join'' = ''/join''"
  by code_simp

lemma sign_up_free_keyword:
  "list_ex (\<lambda>k. str_contains k (str_lower ''Sign Up Free'')
                \<or> str_contains k (str_lower ''https://example.com/join'')) CTA_KEYWORDS"
  by code_simp

lemma sign_and_free:
  "str_contains ''sign'' (str_lower ''Sign Up Free'')
   \<and> str_contains ''free'' (str_lower ''Sign Up Free'')
   \<and> ''sign'' \<in> set CTA_KEYWORDS \<and> ''free'' \<in> set CTA_KEYWORDS"
  by code_simp

lemma btn_entry_sign_up:
  assumes "node_name e = ''a''" and "get_attr e ''href'' = Some ''/join''"
      and "get_text_clean (Some e) = ''Sign Up Free''"
  shows "btn_entry ''https://example.com/x'' e =
           Returns (Some \<lparr>cta_text = ''Sign Up Free'', cta_href = ''https://example.com/join''\<rparr>)"
  using assms sign_up_free_keyword
  by (simp add: btn_entry_def Let_def join_resolved join_stripped)

text \<open>
  Two pages that show what the scan leaves out. The text of a link does not include the
  text of a \<^verbatim>\<open>script\<close> element inside it; and a link whose href has a bracketed host that
  is not an IP address makes \<^verbatim>\<open>urljoin\<close> raise, which ends the scan with the empty list,
  whatever comes after it.
\<close>

lemma get_text_clean_leaves_script_out:
  "get_text_clean (Some (Elem ''a'' [(''href'', ''/join'')] None
                     [Text NavigableString ''Sign Up '',
                      Elem ''script'' [] None [Text Script ''Free'']])) = ''Sign Up''"
  by code_simp

lemma get_btns_ends_at_bracketed_host:
  "get_btns
     (Elem ''[document]'' [] None
        [Elem ''a'' [(''href'', ''http://[bad]/a'')] None [Text NavigableString ''Get''],
         Elem ''a'' [(''href'', ''/join'')] None [Text NavigableString ''Sign Up Free'']])
     ''https://example.com/x'' = []"
  by code_simp

text \<open>
  C9. The claim: on the page \<^verbatim>\<open>https://example.com/x\<close>, a link with the text
  \<^verbatim>\<open>Sign Up Free\<close> and the href \<^verbatim>\<open>/join\<close> gives a CTA entry whose href is
  \<^verbatim>\<open>https://example.com/x/join\<close>. The href starts with a slash, so \<^verbatim>\<open>urljoin\<close> replaces
  the whole path of the page URL: the entry has the href \<^verbatim>\<open>https://example.com/join\<close>,
  and no entry has the href of the claim.
\<close>

theorem c9_href_is_not_below_page_path:
  "get_btns
     (Elem ''[document]'' [] None
        [Elem ''html'' [] None
           [Elem ''body'' [] None
              [Elem ''button'' [] None [Text NavigableString ''Menu''],
               Elem ''a'' [(''href'', ''/join'')] None [Text NavigableString ''Sign Up Free'']]]])
     ''https://example.com/x''
   = [\<lparr>cta_text = ''Sign Up Free'', cta_href = ''https://example.com/join''\<rparr>]
   \<and> ''https://example.com/x/join''
       \<notin> cta_href ` set (get_btns
     (Elem ''[document]'' [] None
        [Elem ''html'' [] None
           [Elem ''body'' [] None
              [Elem ''button'' [] None [Text NavigableString ''Menu''],
               Elem ''a'' [(''href'', ''/join'')] None [Text NavigableString ''Sign Up Free'']]]])
     ''https://example.com/x'')"
  by code_simp

text \<open>
  C9, as amended: on the page \<^verbatim>\<open>https://example.com/x\<close>, a link element with the text
  \<^verbatim>\<open>Sign Up Free\<close> and the href \<^verbatim>\<open>/join\<close> gives the CTA entry with that text and the
  href \<^verbatim>\<open>https://example.com/join\<close>, and the entry is in the list that \<open>get_btns\<close>
  returns, provided that no element scanned before the link makes the URL resolution
  raise (a raise ends the scan).
\<close>

theorem c9_sign_up_href_resolved_against_origin:
  assumes "soup_find_all (\<lambda>e. node_name e \<in> {''a'', ''button'', ''input''}) soup
             = before @ e # after"
      and "\<forall>x\<in>set before. btn_entry ''https://example.com/x'' x \<noteq> Raises"
      and "node_name e = ''a''" and "get_attr e ''href'' = Some ''/join''"
      and "get_text_clean (Some e) = ''Sign Up Free''"
  shows "btn_entry ''https://example.com/x'' e =
           Returns (Some \<lparr>cta_text = ''Sign Up Free'', cta_href = ''https://example.com/join''\<rparr>)
         \<and> \<lparr>cta_text = ''Sign Up Free'', cta_href = ''https://example.com/join''\<rparr>
             \<in> set (get_btns soup ''https://example.com/x'')"
  using assms btn_entry_sign_up [OF assms(3,4,5)]
  by (simp add: get_btns_def btns_scan_mem)

text \<open>A page with a button and the link.\<close>

theorem c9_sign_up_href_resolved_against_origin_witness:
  "soup_find_all (\<lambda>e. node_name e \<in> {''a'', ''button'', ''input''})
     (Elem ''[document]'' [] None
        [Elem ''html'' [] None
           [Elem ''body'' [] None
              [Elem ''button'' [] None [Text NavigableString ''Menu''],
               Elem ''a'' [(''href'', ''/join'')] None [Text NavigableString ''Sign Up Free'']]]])
   = [Elem ''button'' [] None [Text NavigableString ''Menu'']]
     @ (Elem ''a'' [(''href'', ''/join'')] None [Text NavigableString ''Sign Up Free'']) # []
   \<and> btn_entry ''https://example.com/x'' (Elem ''a'' [(''href'', ''/join'')] None [Text NavigableString ''Sign Up Free''])
     = Returns (Some \<lparr>cta_text = ''Sign Up Free'', cta_href = ''https://example.com/join''\<rparr>)
   \<and> \<lparr>cta_text = ''Sign Up Free'', cta_href = ''https://example.com/join''\<rparr>
     \<in> set (get_btns
     (Elem ''[document]'' [] None
        [Elem ''html'' [] None
           [Elem ''body'' [] None
              [Elem ''button'' [] None [Text NavigableString ''Menu''],
               Elem ''a'' [(''href'', ''/join'')] None [Text NavigableString ''Sign Up Free'']]]])
     ''https://example.com/x'')"
proof -
  let ?soup = "(Elem ''[document]'' [] None
        [Elem ''html'' [] None
           [Elem ''body'' [] None
              [Elem ''button'' [] None [Text NavigableString ''Menu''],
               Elem ''a'' [(''href'', ''/join'')] None [Text NavigableString ''Sign Up Free'']]]])"
  let ?e = "(Elem ''a'' [(''href'', ''/join'')] None [Text NavigableString ''Sign Up Free''])"
  let ?before = "[Elem ''button'' [] None [Text NavigableString ''Menu'']]"
  have h1: "soup_find_all (\<lambda>e. node_name e \<in> {''a'', ''button'', ''input''}) ?soup
              = ?before @ ?e # []"
    by code_simp
  have h2: "\<forall>x\<in>set ?before. btn_entry ''https://example.com/x'' x \<noteq> Raises"
    by code_simp
  have h3: "node_name ?e = ''a''"
    by simp
  have h4: "get_attr ?e ''href'' = Some ''/join''"
    by simp
  have h5: "get_text_clean (Some ?e) = ''Sign Up Free''"
    by code_simp
  from c9_sign_up_href_resolved_against_origin [OF h1 h2 h3 h4 h5] h1
  show ?thesis by blast
qed

text \<open>
  C10. Every entry that \<open>get_btns\<close> returns has a text that is not empty and is the
  entry of one of the scanned elements; and the entry of an element that is not a link
  (a button or an input) has the empty href.
\<close>

theorem c10_cta_text_nonempty_href_empty_off_links:
  "(\<forall>c\<in>set (get_btns soup u).
       cta_text c \<noteq> []
       \<and> (\<exists>e\<in>set (soup_find_all (\<lambda>e. node_name e \<in> {''a'', ''button'', ''input''}) soup).
             btn_entry u e = Returns (Some c)))
   \<and> (\<forall>e c. btn_entry u e = Returns (Some c) \<and> node_name e \<noteq> ''a'' \<longrightarrow> cta_href c = [])"
proof (intro conjI ballI allI impI)
  fix c
  assume c: "c \<in> set (get_btns soup u)"
  then show "\<exists>e\<in>set (soup_find_all (\<lambda>e. node_name e \<in> {''a'', ''button'', ''input''}) soup).
               btn_entry u e = Returns (Some c)"
    by (simp add: get_btns_def btns_scan_from)
  then show "cta_text c \<noteq> []"
    using btn_entry_text by blast
next
  fix e c
  assume "btn_entry u e = Returns (Some c) \<and> node_name e \<noteq> ''a''"
  then show "cta_href c = []"
    using btn_entry_href by blast
qed

text \<open>A form with a text input, a submit input, a button and a link.\<close>

theorem c10_cta_text_nonempty_href_empty_off_links_witness:
  "\<lparr>cta_text = ''Buy now'', cta_href = []\<rparr>
     \<in> set (get_btns
     (Elem ''[document]'' [] None
        [Elem ''form'' [] None
           [Elem ''input'' [(''type'', ''text''), (''name'', ''q'')] None [],
            Elem ''input'' [(''type'', ''submit''), (''value'', ''Join now'')] None [],
            Elem ''button'' [] None [Text NavigableString '' Buy '', Elem ''b'' [] None [Text NavigableString ''now'']],
            Elem ''a'' [(''href'', ''/pricing'')] None [Text NavigableString ''Try it'']]])
     ''https://example.com/x'')
   \<and> btn_entry ''https://example.com/x''
       (Elem ''button'' [] None [Text NavigableString '' Buy '', Elem ''b'' [] None [Text NavigableString ''now'']])
     = Returns (Some \<lparr>cta_text = ''Buy now'', cta_href = []\<rparr>)
   \<and> node_name (Elem ''button'' [] None [Text NavigableString '' Buy '', Elem ''b'' [] None [Text NavigableString ''now'']]) \<noteq> ''a''
   \<and> cta_text \<lparr>cta_text = ''Buy now'', cta_href = []\<rparr> \<noteq> []
   \<and> cta_href \<lparr>cta_text = ''Buy now'', cta_href = []\<rparr> = []"
proof -
  let ?soup = "(Elem ''[document]'' [] None
        [Elem ''form'' [] None
           [Elem ''input'' [(''type'', ''text''), (''name'', ''q'')] None [],
            Elem ''input'' [(''type'', ''submit''), (''value'', ''Join now'')] None [],
            Elem ''button'' [] None [Text NavigableString '' Buy '', Elem ''b'' [] None [Text NavigableString ''now'']],
            Elem ''a'' [(''href'', ''/pricing'')] None [Text NavigableString ''Try it'']]])"
  let ?b = "(Elem ''button'' [] None [Text NavigableString '' Buy '', Elem ''b'' [] None [Text NavigableString ''now'']])"
  let ?c = "\<lparr>cta_text = ''Buy now'', cta_href = []\<rparr>"
  have m: "?c \<in> set (get_btns ?soup ''https://example.com/x'')"
    by code_simp
  have b: "btn_entry ''https://example.com/x'' ?b = Returns (Some ?c)"
    by code_simp
  have n: "node_name ?b \<noteq> ''a''"
    by simp
  from c10_cta_text_nonempty_href_empty_off_links [of ?soup "''https://example.com/x''"] m b n
  show ?thesis by blast
qed

end
